theory Spec2Isabelle
  imports Main
begin

section \<open>The research pipeline (agent-module.py)\<close>

subsection \<open>Data model\<close>

text \<open>
  The dictionaries of the pipeline are records. A key that a dictionary may lack is an
  option field, \<open>None\<close> meaning that the key is absent.

  \<open>search_hit\<close> is a dictionary returned by \<open>get_top_results\<close>: the keys
  \<open>'title'\<close>, \<open>'link'\<close> and \<open>'snippet'\<close>. \<open>result_item\<close> is the dictionary
  \<open>result_data\<close> built in the loop of \<open>research\<close>: the three keys of the hit, the key
  \<open>'success'\<close>, and the keys \<open>'error'\<close>, \<open>'summary'\<close> and \<open>'content'\<close>, which are set
  on some paths only.
\<close>

record search_hit =
  title :: string
  link :: string
  snippet :: string

record result_item = search_hit +
  success :: bool
  error :: "string option"
  summary :: "string option"
  content :: "string option"

text \<open>
  The dictionaries appended to \<open>successful_summaries\<close>, keys \<open>'title'\<close>, \<open>'link'\<close> and
  \<open>'summary'\<close>.
\<close>

record source_summary =
  src_title :: string
  src_link :: string
  src_summary :: string

text \<open>
  The dictionary returned by \<open>research\<close>. The early return has the key \<open>'error'\<close> and
  no key \<open>'query'\<close>, the final return has \<open>'query'\<close> and no \<open>'error'\<close>; both are option
  fields where \<open>None\<close> is an absent key. The key \<open>'comprehensive_summary'\<close> is always
  present: here \<open>None\<close> is Python's \<open>None\<close>.
\<close>

record research_result =
  rr_success :: bool
  rr_error :: "string option"
  rr_query :: "string option"
  rr_results :: "result_item list"
  rr_comprehensive_summary :: "string option"

subsection \<open>Collaborators and calls\<close>

text \<open>
  \<open>research\<close> reaches its three collaborators through \<open>self.search_tool\<close>,
  \<open>self.scraper\<close> and \<open>self.summarizer\<close>. Each method called is a function on a state
  \<open>'s\<close> (the network, the provider, what a mock has recorded), returning its result and
  the next state. The methods \<open>scrape\<close>, \<open>summarize\<close> and
  \<open>create_comprehensive_summary\<close> return a pair (success, text or error message).
\<close>

record 's agent =
  search_tool_get_top_results :: "string \<Rightarrow> int \<Rightarrow> 's \<Rightarrow> search_hit list \<times> 's"
  scraper_scrape :: "string \<Rightarrow> 's \<Rightarrow> (bool \<times> string) \<times> 's"
  summarizer_summarize :: "string \<Rightarrow> string \<Rightarrow> bool \<Rightarrow> 's \<Rightarrow> (bool \<times> string) \<times> 's"
  summarizer_create_comprehensive_summary ::
    "source_summary list \<Rightarrow> string \<Rightarrow> 's \<Rightarrow> (bool \<times> string) \<times> 's"

text \<open>
  A run records every call that \<open>research\<close> makes on a collaborator, with its arguments,
  in the order of the calls (what the mocks of test-agent.py record).
\<close>

datatype call =
  GetTopResults string int
  | Scrape string
  | Summarize string string bool
  | CreateComprehensiveSummary "source_summary list" string

record 's run =
  st :: 's
  calls :: "call list"

definition call_get_top_results ::
  "'s agent \<Rightarrow> string \<Rightarrow> int \<Rightarrow> 's run \<Rightarrow> search_hit list \<times> 's run" where
  "call_get_top_results self query num_results r =
     (case search_tool_get_top_results self query num_results (st r) of
        (hits, s') \<Rightarrow> (hits, \<lparr>st = s', calls = calls r @ [GetTopResults query num_results]\<rparr>))"

definition call_scrape :: "'s agent \<Rightarrow> string \<Rightarrow> 's run \<Rightarrow> (bool \<times> string) \<times> 's run" where
  "call_scrape self url r =
     (case scraper_scrape self url (st r) of
        (res, s') \<Rightarrow> (res, \<lparr>st = s', calls = calls r @ [Scrape url]\<rparr>))"

definition call_summarize ::
  "'s agent \<Rightarrow> string \<Rightarrow> string \<Rightarrow> bool \<Rightarrow> 's run \<Rightarrow> (bool \<times> string) \<times> 's run" where
  "call_summarize self text query is_brief r =
     (case summarizer_summarize self text query is_brief (st r) of
        (res, s') \<Rightarrow> (res, \<lparr>st = s', calls = calls r @ [Summarize text query is_brief]\<rparr>))"

definition call_create_comprehensive_summary ::
  "'s agent \<Rightarrow> source_summary list \<Rightarrow> string \<Rightarrow> 's run \<Rightarrow> (bool \<times> string) \<times> 's run" where
  "call_create_comprehensive_summary self summaries query r =
     (case summarizer_create_comprehensive_summary self summaries query (st r) of
        (res, s') \<Rightarrow>
          (res, \<lparr>st = s', calls = calls r @ [CreateComprehensiveSummary summaries query]\<rparr>))"

subsection \<open>research\<close>

text \<open>
  The body of the loop \<open>for i, result in enumerate(search_results)\<close> (lines 90 to 123):
  from the hit, the list \<open>successful_summaries\<close> and the run so far, the dictionary
  \<open>result_data\<close> stored at \<open>search_results[i]\<close>, the list \<open>successful_summaries\<close> and the
  run afterwards.
\<close>

definition process_result ::
  "'s agent \<Rightarrow> string \<Rightarrow> bool \<Rightarrow> search_hit \<Rightarrow> source_summary list \<Rightarrow> 's run \<Rightarrow>
     result_item \<times> source_summary list \<times> 's run" where
  "process_result self query brief_summaries result successful_summaries r =
     (let result_data =
            \<lparr>title = title result, link = link result, snippet = snippet result,
             success = False, error = None, summary = None, content = None\<rparr>
      in case call_scrape self (link result) r of
           ((scrape_success, text), r1) \<Rightarrow>
             if \<not> scrape_success then
               (result_data\<lparr>error := Some text\<rparr>, successful_summaries, r1)
             else
               (case call_summarize self text query brief_summaries r1 of
                  ((summary_success, summ), r2) \<Rightarrow>
                    if \<not> summary_success then
                      (result_data\<lparr>error := Some summ\<rparr>, successful_summaries, r2)
                    else
                      (result_data
                         \<lparr>success := True,
                          summary := Some summ,
                          content := Some (if length text > 1000
                                           then take 1000 text @ ''...'' else text)\<rparr>,
                       successful_summaries @
                         [\<lparr>src_title = title result, src_link = link result,
                           src_summary = summ\<rparr>],
                       r2)))"

text \<open>
  The loop. The source replaces \<open>search_results[i]\<close> by \<open>result_data\<close> after reading
  the hit at index \<open>i\<close>, for every index in turn: the list after the loop is the list of
  the \<open>result_data\<close>, in the order of the hits.
\<close>

fun process_results ::
  "'s agent \<Rightarrow> string \<Rightarrow> bool \<Rightarrow> search_hit list \<Rightarrow> source_summary list \<Rightarrow> 's run \<Rightarrow>
     result_item list \<times> source_summary list \<times> 's run" where
  "process_results self query brief_summaries [] successful_summaries r =
     ([], successful_summaries, r)"
| "process_results self query brief_summaries (result # rest) successful_summaries r =
     (case process_result self query brief_summaries result successful_summaries r of
        (result_data, successful_summaries', r') \<Rightarrow>
          (case process_results self query brief_summaries rest successful_summaries' r' of
             (items, successful_summaries'', r'') \<Rightarrow>
               (result_data # items, successful_summaries'', r'')))"

text \<open>
  Step 3 (lines 126 to 133): the variables \<open>comprehensive_success\<close> and
  \<open>comprehensive_summary\<close> after the conditional call.
\<close>

definition synthesis_step ::
  "'s agent \<Rightarrow> string \<Rightarrow> source_summary list \<Rightarrow> 's run \<Rightarrow> (bool \<times> string option) \<times> 's run" where
  "synthesis_step self query successful_summaries r =
     (if successful_summaries \<noteq> [] then
        (case call_create_comprehensive_summary self successful_summaries query r of
           ((comprehensive_success, text), r') \<Rightarrow> ((comprehensive_success, Some text), r'))
      else ((False, None), r))"

definition research ::
  "'s agent \<Rightarrow> string \<Rightarrow> int \<Rightarrow> bool \<Rightarrow> 's run \<Rightarrow> research_result \<times> 's run" where
  "research self query num_results brief_summaries r =
     (case call_get_top_results self query num_results r of
        (search_results, r1) \<Rightarrow>
          if search_results = [] then
            (\<lparr>rr_success = False, rr_error = Some ''No search results found'',
              rr_query = None, rr_results = [], rr_comprehensive_summary = None\<rparr>, r1)
          else
            (case process_results self query brief_summaries search_results [] r1 of
               (items, successful_summaries, r2) \<Rightarrow>
                 (case synthesis_step self query successful_summaries r2 of
                    ((comprehensive_success, comprehensive_summary), r3) \<Rightarrow>
                      (\<lparr>rr_success = length successful_summaries > 0,
                        rr_error = None,
                        rr_query = Some query,
                        rr_results = items,
                        rr_comprehensive_summary =
                          (if comprehensive_success then comprehensive_summary else None)\<rparr>,
                       r3))))"

section \<open>Python strings\<close>

text \<open>
  A Python string is a \<open>string\<close>, every \<open>char\<close> read as the code point of the same
  number (below 256); \<open>len\<close> is \<open>length\<close> and a slice \<open>s[:n]\<close> is \<open>take n s\<close>.
\<close>

definition NL :: string where
  "NL = [CHR 0x0A]"

definition DQ :: string where
  "DQ = [CHR 0x22]"

text \<open>\<open>str.isspace\<close> on one character: the white space of Python below code point 256.\<close>

definition isspace :: "char \<Rightarrow> bool" where
  "isspace c = ((of_char c :: nat) \<in> {9, 10, 11, 12, 13, 28, 29, 30, 31, 32, 133, 160})"

text \<open>
  \<open>str.lower\<close>: the capital letters below code point 256 are \<open>A\<close> to \<open>Z\<close> and the
  Latin-1 capitals 192 to 222 without the multiplication sign 215; each has its small
  letter 32 code points higher.
\<close>

definition lower_char :: "char \<Rightarrow> char" where
  "lower_char c =
     (let k = (of_char c :: nat)
      in if (65 \<le> k \<and> k \<le> 90) \<or> (192 \<le> k \<and> k \<le> 222 \<and> k \<noteq> 215)
         then char_of (k + 32) else c)"

definition lower :: "string \<Rightarrow> string" where
  "lower s = map lower_char s"

text \<open>\<open>s.endswith(ext)\<close> and \<open>sub in s\<close>.\<close>

definition endswith :: "string \<Rightarrow> string \<Rightarrow> bool" where
  "endswith s ext = (length ext \<le> length s \<and> drop (length s - length ext) s = ext)"

fun contains :: "string \<Rightarrow> string \<Rightarrow> bool" where
  "contains [] sub = (sub = [])"
| "contains (c # cs) sub = (take (length sub) (c # cs) = sub \<or> contains cs sub)"

text \<open>\<open>str(i)\<close> for a number that is not negative (the \<open>{i}\<close> of an f-string).\<close>

fun str_nat :: "nat \<Rightarrow> string" where
  "str_nat i = (if i < 10 then [char_of (48 + i)]
                else str_nat (i div 10) @ [char_of (48 + i mod 10)])"

text \<open>
  \<open>re.sub\<close> for a pattern that matches a run of at least \<open>k\<close> characters of one class
  (the three patterns of \<open>_extract_main_content\<close> are of this form, with \<open>k\<close> at least 1): the
  match is greedy, so every maximal run of length \<open>k\<close> or more is replaced, and a
  shorter run stays.
\<close>

function re_sub_run :: "(char \<Rightarrow> bool) \<Rightarrow> nat \<Rightarrow> string \<Rightarrow> string \<Rightarrow> string" where
  "re_sub_run P k repl [] = []"
| "re_sub_run P k repl (c # cs) =
     (if P c then
        (if k \<le> Suc (length (takeWhile P cs)) then repl else c # takeWhile P cs)
          @ re_sub_run P k repl (dropWhile P cs)
      else c # re_sub_run P k repl cs)"
  by pat_completeness auto
termination
  by (relation "measure (\<lambda>(P, k, repl, s). length s)")
     (auto simp: le_imp_less_Suc length_dropWhile_le)

definition strip :: "string \<Rightarrow> string" where
  "strip s = rev (dropWhile isspace (rev (dropWhile isspace s)))"

text \<open>
  \<open>x or y\<close> on values that are a string or \<open>None\<close>, and \<open>not x\<close>: \<open>None\<close> and the
  empty string are false.
\<close>

definition falsy :: "string option \<Rightarrow> bool" where
  "falsy x = (x = None \<or> x = Some [])"

definition py_or :: "string option \<Rightarrow> string option \<Rightarrow> string option" where
  "py_or x y = (if falsy x then y else x)"

section \<open>The outside world\<close>

text \<open>
  The libraries the modules call. \<open>requests.get\<close> returns a response or raises; the
  classes of exception are the ones the handlers of the source tell apart, each with
  its \<open>str(e)\<close>. \<open>HTTPError\<close> is not among them: it is raised by
  \<open>raise_for_status\<close>, below.
\<close>

datatype param = PStr string | PInt int

record request =
  req_url :: string
  req_params :: "(string \<times> param) list"
  req_headers :: "(string \<times> string) list"
  req_timeout :: "int option"

record response =
  status_code :: nat
  response_headers :: "string \<rightharpoonup> string"
  response_text :: string

datatype raised =
  Timeout string
  | TooManyRedirects string
  | RequestException string
  | OtherException string

text \<open>
  What \<open>model.generate_content(prompt)\<close> gives the summarizer: an exception raised
  inside the \<open>try\<close> block (by the model, the call or reading \<open>response.text\<close>), a
  response without an attribute \<open>text\<close>, or a response with its text.
\<close>

datatype generation = Raises string | NoText | Text string

text \<open>
  A JSON object whose values are strings (a hit of the search provider), and the body
  of the provider's answer: the list under \<open>organic_results\<close>, \<open>None\<close> when the key
  is absent.
\<close>

type_synonym json_object = "string \<rightharpoonup> string"

text \<open>
  The environment: the calls that act on the world \<open>'w\<close>, and the pure library
  functions the modules use on what they receive.
  \<^item> \<open>http_error_message\<close>: \<open>str(e)\<close> of the \<open>HTTPError\<close> that \<open>raise_for_status\<close>
    raises for a response;
  \<^item> \<open>response_json\<close>: \<open>response.json()\<close>, \<open>Inl\<close> the \<open>str(e)\<close> when it raises;
  \<^item> \<open>urlparse\<close>: the scheme and the netloc of \<open>urllib.parse.urlparse\<close>, \<open>Inl\<close> when
    it raises;
  \<^item> \<open>soup_get_text\<close>: from \<open>response.text\<close>, the text
    \<open>main_content.get_text\<close> (with a newline as separator) of the container that
    \<open>_extract_main_content\<close> selects in the parsed document after removing the
    elements that are not content (lines 109 to 125 of scraper-module.py, all calls of
    BeautifulSoup), \<open>Inl\<close> the \<open>str(e)\<close> when BeautifulSoup raises.
\<close>

record 'w env =
  requests_get :: "request \<Rightarrow> 'w \<Rightarrow> (raised + response) \<times> 'w"
  time_sleep :: "int \<Rightarrow> 'w \<Rightarrow> 'w"
  generate_content :: "string \<Rightarrow> string \<Rightarrow> 'w \<Rightarrow> generation \<times> 'w"
  http_error_message :: "response \<Rightarrow> string"
  response_json :: "response \<Rightarrow> string + json_object list option"
  urlparse :: "string \<Rightarrow> string + string \<times> string"
  soup_get_text :: "string \<Rightarrow> string + string"

text \<open>The world and the log of what was done to it, in order.\<close>

datatype io = Get request | Sleep int | Generate string string

record 'w net =
  world :: 'w
  io_log :: "io list"

definition do_get :: "'w env \<Rightarrow> request \<Rightarrow> 'w net \<Rightarrow> (raised + response) \<times> 'w net" where
  "do_get e req n =
     (case requests_get e req (world n) of
        (res, w') \<Rightarrow> (res, \<lparr>world = w', io_log = io_log n @ [Get req]\<rparr>))"

definition do_sleep :: "'w env \<Rightarrow> int \<Rightarrow> 'w net \<Rightarrow> 'w net" where
  "do_sleep e secs n = \<lparr>world = time_sleep e secs (world n), io_log = io_log n @ [Sleep secs]\<rparr>"

definition do_generate :: "'w env \<Rightarrow> string \<Rightarrow> string \<Rightarrow> 'w net \<Rightarrow> generation \<times> 'w net" where
  "do_generate e model_name prompt n =
     (case generate_content e model_name prompt (world n) of
        (res, w') \<Rightarrow> (res, \<lparr>world = w', io_log = io_log n @ [Generate model_name prompt]\<rparr>))"

text \<open>
  \<open>response.raise_for_status()\<close> of the requests library raises \<open>HTTPError\<close> for a
  status from 400 to 599, and for no other.
\<close>

definition raises_for_status :: "response \<Rightarrow> bool" where
  "raises_for_status resp = (400 \<le> status_code resp \<and> status_code resp < 600)"

text \<open>
  What a loop body does to its loop: \<open>Return v\<close> leaves the function with \<open>v\<close>,
  \<open>Continue\<close> goes on with the next iteration.
\<close>

datatype 'a flow = Return 'a | Continue

section \<open>The search tool (search-tool-module.py)\<close>

record serp_api_search_tool =
  serp_api_key :: string
  base_url :: string

text \<open>\<open>SerpApiSearchTool.__init__\<close>; \<open>Inl\<close> is the message of the \<open>ValueError\<close>.\<close>

definition SerpApiSearchTool ::
  "(string \<rightharpoonup> string) \<Rightarrow> string option \<Rightarrow> string + serp_api_search_tool" where
  "SerpApiSearchTool environ api_key =
     (case py_or api_key (environ ''SERPAPI_KEY'') of
        Some k \<Rightarrow>
          if k = [] then
            Inl ''SerpAPI key is required. Set SERPAPI_KEY environment variable or pass it directly.''
          else Inr \<lparr>serp_api_key = k, base_url = ''https://serpapi.com/search''\<rparr>
      | None \<Rightarrow>
          Inl ''SerpAPI key is required. Set SERPAPI_KEY environment variable or pass it directly.'')"

text \<open>
  The handler \<open>except Exception\<close> of \<open>search\<close> (lines 78 to 85): sleep and go on
  with the next attempt, or return \<open>[]\<close> at the last one.
\<close>

definition search_other_exception :: "'w env \<Rightarrow> int \<Rightarrow> int \<Rightarrow> 'w net \<Rightarrow> json_object list flow \<times> 'w net" where
  "search_other_exception e attempt max_retries n =
     (if attempt < max_retries - 1 then (Continue, do_sleep e (2 ^ nat attempt) n)
      else (Return [], n))"

text \<open>
  One iteration of \<open>for attempt in range(max_retries)\<close> in \<open>search\<close> (lines 49 to 85).
  An exception of \<open>requests.get\<close> or of \<open>response.json()\<close> is not an \<open>HTTPError\<close> and
  reaches \<open>except Exception\<close>; the \<open>HTTPError\<close> of \<open>raise_for_status\<close> reaches the
  first handler (lines 68 to 76).
\<close>

definition search_attempt ::
  "'w env \<Rightarrow> serp_api_search_tool \<Rightarrow> (string \<times> param) list \<Rightarrow> int \<Rightarrow> int \<Rightarrow> 'w net \<Rightarrow>
     json_object list flow \<times> 'w net" where
  "search_attempt e self params attempt max_retries n =
     (case do_get e \<lparr>req_url = base_url self, req_params = params, req_headers = [],
                      req_timeout = None\<rparr> n of
        (Inl exn, n1) \<Rightarrow> search_other_exception e attempt max_retries n1
      | (Inr resp, n1) \<Rightarrow>
          if status_code resp = 401 then (Return [], n1)
          else if raises_for_status resp then
            (if status_code resp = 429 \<and> attempt < max_retries - 1
             then (Continue, do_sleep e (2 ^ nat attempt) n1)
             else (Return [], n1))
          else
            (case response_json e resp of
               Inl exn \<Rightarrow> search_other_exception e attempt max_retries n1
             | Inr (Some organic_results) \<Rightarrow> (Return organic_results, n1)
             | Inr None \<Rightarrow> (Return [], n1)))"

text \<open>The loop over the attempts left; after the last one, line 88 returns \<open>[]\<close>.\<close>

fun search_loop ::
  "'w env \<Rightarrow> serp_api_search_tool \<Rightarrow> (string \<times> param) list \<Rightarrow> int \<Rightarrow> int list \<Rightarrow> 'w net \<Rightarrow>
     json_object list \<times> 'w net" where
  "search_loop e self params max_retries [] n = ([], n)"
| "search_loop e self params max_retries (attempt # rest) n =
     (case search_attempt e self params attempt max_retries n of
        (Return v, n') \<Rightarrow> (v, n')
      | (Continue, n') \<Rightarrow> search_loop e self params max_retries rest n')"

text \<open>\<open>range(max_retries)\<close> is the list \<open>[0..max_retries - 1]\<close>, empty when \<open>max_retries \<le> 0\<close>.\<close>

definition search ::
  "'w env \<Rightarrow> serp_api_search_tool \<Rightarrow> string \<Rightarrow> int \<Rightarrow> int \<Rightarrow> 'w net \<Rightarrow>
     json_object list \<times> 'w net" where
  "search e self query num_results max_retries n =
     (let params = [(''q'', PStr query), (''api_key'', PStr (serp_api_key self)),
                    (''engine'', PStr ''google''), (''num'', PInt (min num_results 10))]
      in search_loop e self params max_retries [0..max_retries - 1] n)"

text \<open>\<open>result.get(key, default)\<close>.\<close>

definition dict_get :: "json_object \<Rightarrow> string \<Rightarrow> string \<Rightarrow> string" where
  "dict_get d k dflt = (case d k of None \<Rightarrow> dflt | Some v \<Rightarrow> v)"

text \<open>\<open>get_top_results\<close> calls \<open>search\<close> with the default \<open>max_retries = 3\<close>.\<close>

definition get_top_results ::
  "'w env \<Rightarrow> serp_api_search_tool \<Rightarrow> string \<Rightarrow> int \<Rightarrow> 'w net \<Rightarrow> search_hit list \<times> 'w net" where
  "get_top_results e self query num_results n =
     (case search e self query num_results 3 n of
        (raw_results, n') \<Rightarrow>
          (map (\<lambda>result. \<lparr>title = dict_get result ''title'' ''No Title'',
                           link = dict_get result ''link'' ''#'',
                           snippet = dict_get result ''snippet'' ''No snippet available''\<rparr>)
               raw_results, n'))"

section \<open>The scraper (scraper-module.py)\<close>

record web_scraper =
  timeout :: int
  headers :: "(string \<times> string) list"

text \<open>\<open>WebScraper.__init__\<close>.\<close>

definition WebScraper :: "int \<Rightarrow> web_scraper" where
  "WebScraper t =
     \<lparr>timeout = t,
      headers = [(''User-Agent'',
        ''Mozilla/5.0 (Windows NT 10.0; Win64; x64) AppleWebKit/537.36 (KHTML, like Gecko) Chrome/91.0.4472.124 Safari/537.36'')]\<rparr>"

text \<open>\<open>_is_valid_url\<close>: \<open>all([result.scheme, result.netloc])\<close>, and \<open>False\<close> when \<open>urlparse\<close> raises.\<close>

definition is_valid_url :: "'w env \<Rightarrow> string \<Rightarrow> bool" where
  "is_valid_url e url =
     (case urlparse e url of
        Inl exn \<Rightarrow> False
      | Inr (scheme, netloc) \<Rightarrow> scheme \<noteq> [] \<and> netloc \<noteq> [])"

definition skip_extensions :: "string list" where
  "skip_extensions = [''.pdf'', ''.jpg'', ''.jpeg'', ''.png'', ''.gif'', ''.mp4'', ''.zip'',
                      ''.doc'', ''.docx'', ''.ppt'', ''.pptx'']"

text \<open>\<open>_should_skip_url\<close>: the loop over the extensions returns at the first that matches.\<close>

fun ends_with_any :: "string \<Rightarrow> string list \<Rightarrow> bool" where
  "ends_with_any url [] = False"
| "ends_with_any url (ext # exts) =
     (if endswith (lower url) ext then True else ends_with_any url exts)"

definition should_skip_url :: "string \<Rightarrow> bool" where
  "should_skip_url url = ends_with_any url skip_extensions"

text \<open>
  \<open>_extract_main_content\<close>: the text of the selected container, then the three
  \<open>re.sub\<close> and \<open>strip\<close> of lines 128 to 131: runs of newlines become one newline,
  runs of white space one space, runs of two or more full stops three full stops.
\<close>

definition extract_main_content :: "'w env \<Rightarrow> string \<Rightarrow> string + string" where
  "extract_main_content e html =
     (case soup_get_text e html of
        Inl exn \<Rightarrow> Inl exn
      | Inr t0 \<Rightarrow>
          (let t1 = re_sub_run (\<lambda>c. c = CHR 0x0A) 1 NL t0;
               t2 = re_sub_run isspace 1 '' '' t1;
               t3 = re_sub_run (\<lambda>c. c = CHR ''.'') 2 ''...'' t2
           in Inr (strip t3)))"

text \<open>
  One iteration of \<open>for attempt in range(max_retries)\<close> in \<open>scrape\<close> (lines 48 to 94):
  the \<open>try\<close> block, then the handlers in their order.
\<close>

definition scrape_attempt ::
  "'w env \<Rightarrow> web_scraper \<Rightarrow> string \<Rightarrow> int \<Rightarrow> int \<Rightarrow> 'w net \<Rightarrow> (bool \<times> string) flow \<times> 'w net" where
  "scrape_attempt e self url attempt max_retries n =
     (case do_get e \<lparr>req_url = url, req_params = [], req_headers = headers self,
                      req_timeout = Some (timeout self)\<rparr> n of
        (Inr resp, n1) \<Rightarrow>
          if raises_for_status resp then
            (Return (False, ''HTTP error: '' @ http_error_message e resp), n1)
          else
            (let content_type =
                   lower (case response_headers resp ''Content-Type'' of
                            None \<Rightarrow> [] | Some v \<Rightarrow> v)
             in if \<not> contains content_type ''text/html'' then
                  (Return (False, ''Not an HTML page. Content-Type: '' @ content_type), n1)
                else
                  (case extract_main_content e (response_text resp) of
                     Inl exn \<Rightarrow> (Return (False, ''Error: '' @ exn), n1)
                   | Inr page_text \<Rightarrow>
                       if page_text = [] \<or> length page_text < 100 then
                         (Return (False, ''Content too short or empty.''), n1)
                       else
                         (Return (True, if length page_text > 15000
                                        then take 15000 page_text @ ''...''
                                        else page_text), n1)))
      | (Inl (Timeout exn), n1) \<Rightarrow>
          if attempt < max_retries - 1 then (Continue, do_sleep e 1 n1)
          else (Return (False, ''Request timed out.''), n1)
      | (Inl (TooManyRedirects exn), n1) \<Rightarrow> (Return (False, ''Too many redirects.''), n1)
      | (Inl (RequestException exn), n1) \<Rightarrow> (Return (False, ''Request error: '' @ exn), n1)
      | (Inl (OtherException exn), n1) \<Rightarrow> (Return (False, ''Error: '' @ exn), n1))"

text \<open>The loop over the attempts left; after the last one, line 96.\<close>

fun scrape_loop ::
  "'w env \<Rightarrow> web_scraper \<Rightarrow> string \<Rightarrow> int \<Rightarrow> int list \<Rightarrow> 'w net \<Rightarrow> (bool \<times> string) \<times> 'w net" where
  "scrape_loop e self url max_retries [] n = ((False, ''Failed after multiple attempts.''), n)"
| "scrape_loop e self url max_retries (attempt # rest) n =
     (case scrape_attempt e self url attempt max_retries n of
        (Return v, n') \<Rightarrow> (v, n')
      | (Continue, n') \<Rightarrow> scrape_loop e self url max_retries rest n')"

definition scrape ::
  "'w env \<Rightarrow> web_scraper \<Rightarrow> string \<Rightarrow> int \<Rightarrow> 'w net \<Rightarrow> (bool \<times> string) \<times> 'w net" where
  "scrape e self url max_retries n =
     (if \<not> is_valid_url e url then ((False, ''Invalid URL format.''), n)
      else if should_skip_url url then
        ((False, ''Skipping URL that may contain non-HTML content: '' @ url), n)
      else scrape_loop e self url max_retries [0..max_retries - 1] n)"

section \<open>The summarizer (summarizer-module.py)\<close>

record gemini_summarizer =
  gemini_api_key :: string
  model_name :: string

text \<open>\<open>GeminiSummarizer.__init__\<close>; \<open>Inl\<close> is the message of the \<open>ValueError\<close>.\<close>

definition GeminiSummarizer ::
  "(string \<rightharpoonup> string) \<Rightarrow> string option \<Rightarrow> string \<Rightarrow> string + gemini_summarizer" where
  "GeminiSummarizer environ api_key name =
     (case py_or api_key (environ ''GEMINI_API_KEY'') of
        Some k \<Rightarrow>
          if k = [] then
            Inl ''Gemini API key is required. Set GEMINI_API_KEY environment variable or pass it directly.''
          else Inr \<lparr>gemini_api_key = k, model_name = name\<rparr>
      | None \<Rightarrow>
          Inl ''Gemini API key is required. Set GEMINI_API_KEY environment variable or pass it directly.'')"

definition create_summary_prompt :: "string \<Rightarrow> string \<Rightarrow> string \<Rightarrow> string" where
  "create_summary_prompt page_text query length_instruction =
     NL @
     ''        Please provide a '' @ length_instruction @ '' summary of the following content in relation to this search query: '' @ DQ @ query @ DQ @ NL @
     ''        '' @ NL @
     ''        Focus on:'' @ NL @
     ''        1. Key facts and information directly relevant to the query'' @ NL @
     ''        2. Main insights, findings, or advancements mentioned'' @ NL @
     ''        3. Any important conclusions or future implications'' @ NL @
     ''        '' @ NL @
     ''        Content:'' @ NL @
     ''        '' @ page_text @ NL @
     ''        '' @ NL @
     ''        Format your summary with clear sections and bullet points where appropriate to enhance readability.'' @ NL @
     ''        Use markdown formatting to improve structure and highlight important information.'' @ NL @
     ''        ''"

definition create_comprehensive_prompt :: "string \<Rightarrow> string \<Rightarrow> string" where
  "create_comprehensive_prompt combined_content query =
     NL @
     ''        Please synthesize a comprehensive research conclusion from the following summaries related to this search query: '' @ DQ @ query @ DQ @ NL @
     ''        '' @ NL @
     ''        Your task is to:'' @ NL @
     ''        1. Identify the main findings and key points across all sources'' @ NL @
     ''        2. Note any consensus or disagreements between sources'' @ NL @
     ''        3. Highlight the most important and relevant information'' @ NL @
     ''        4. Organize the information logically with clear section headings'' @ NL @
     ''        5. Include a brief conclusion with the most important takeaways'' @ NL @
     ''        '' @ NL @
     ''        Here are the summaries from various sources:'' @ NL @
     ''        '' @ combined_content @ NL @
     ''        '' @ NL @
     ''        Please create a well-structured, comprehensive research conclusion that synthesizes all this information.'' @ NL @
     ''        Include a '' @ DQ @ ''Key Findings'' @ DQ @ '' section at the beginning and a '' @ DQ @ ''Conclusion'' @ DQ @ '' at the end.'' @ NL @
     ''        Use markdown formatting to improve structure and readability.'' @ NL @
     ''        ''"

definition summarize ::
  "'w env \<Rightarrow> gemini_summarizer \<Rightarrow> string \<Rightarrow> string \<Rightarrow> bool \<Rightarrow> 'w net \<Rightarrow>
     (bool \<times> string) \<times> 'w net" where
  "summarize e self page_text query is_brief n =
     (let length_instruction =
            (if is_brief then ''brief and concise (100-150 words)''
             else ''comprehensive (300-500 words)'');
          prompt = create_summary_prompt page_text query length_instruction
      in case do_generate e (model_name self) prompt n of
           (Raises exn, n') \<Rightarrow> ((False, ''Failed to summarize: '' @ exn), n')
         | (NoText, n') \<Rightarrow> ((False, ''Error: Unexpected response format from API''), n')
         | (Text t, n') \<Rightarrow>
             if t = [] \<or> length t < 50 then
               ((False, ''Generated summary was too short or empty''), n')
             else ((True, t), n'))"

text \<open>
  The loop \<open>for i, summary_data in enumerate(summaries, 1)\<close> that builds
  \<open>combined_content\<close>.
\<close>

fun combine_content :: "nat \<Rightarrow> source_summary list \<Rightarrow> string \<Rightarrow> string" where
  "combine_content i [] combined_content = combined_content"
| "combine_content i (summary_data # rest) combined_content =
     combine_content (Suc i) rest
       (combined_content
          @ (NL @ NL @ ''SOURCE '' @ str_nat i @ '': '' @ src_title summary_data @ NL)
          @ (src_summary summary_data @ NL)
          @ (''URL: '' @ src_link summary_data @ NL))"

definition create_comprehensive_summary ::
  "'w env \<Rightarrow> gemini_summarizer \<Rightarrow> source_summary list \<Rightarrow> string \<Rightarrow> 'w net \<Rightarrow>
     (bool \<times> string) \<times> 'w net" where
  "create_comprehensive_summary e self summaries query n =
     (let combined_content = combine_content 1 summaries [];
          prompt = create_comprehensive_prompt combined_content query
      in case do_generate e (model_name self) prompt n of
           (Raises exn, n') \<Rightarrow>
             ((False, ''Failed to create comprehensive summary: '' @ exn), n')
         | (NoText, n') \<Rightarrow> ((False, ''Error: Unexpected response format from API''), n')
         | (Text t, n') \<Rightarrow> ((True, t), n'))"

section \<open>The agent and its components (agent-module.py)\<close>

text \<open>
  \<open>WebResearchAgent.__init__\<close>: the keys given or those of the environment variables,
  the two checks in their order, then the three components; \<open>research\<close> calls
  \<open>scrape\<close> with its default \<open>max_retries = 2\<close>, on a scraper with the default
  timeout 10. \<open>Inl\<close> is the message of the \<open>ValueError\<close>.
\<close>

definition WebResearchAgent ::
  "'w env \<Rightarrow> (string \<rightharpoonup> string) \<Rightarrow> string option \<Rightarrow> string option \<Rightarrow> string \<Rightarrow>
     string + 'w net agent" where
  "WebResearchAgent e environ gemini_key serpapi_key name =
     (let gk = py_or gemini_key (environ ''GEMINI_API_KEY'');
          sk = py_or serpapi_key (environ ''SERPAPI_KEY'')
      in if falsy gk then
           Inl ''Gemini API key is required. Set GEMINI_API_KEY environment variable or pass it directly.''
         else if falsy sk then
           Inl ''SerpAPI key is required. Set SERPAPI_KEY environment variable or pass it directly.''
         else
           (case SerpApiSearchTool environ sk of
              Inl msg \<Rightarrow> Inl msg
            | Inr tool \<Rightarrow>
                (case GeminiSummarizer environ gk name of
                   Inl msg \<Rightarrow> Inl msg
                 | Inr summarizer \<Rightarrow>
                     Inr \<lparr>search_tool_get_top_results = get_top_results e tool,
                          scraper_scrape = (\<lambda>url. scrape e (WebScraper 10) url 2),
                          summarizer_summarize = summarize e summarizer,
                          summarizer_create_comprehensive_summary =
                            create_comprehensive_summary e summarizer\<rparr>)))"

section \<open>Mocked collaborators (test-agent.py)\<close>

text \<open>
  The collaborators of test-agent.py: every method is a mock with a fixed
  \<open>return_value\<close>, whatever its arguments, and there is no state besides the recorded
  calls.
\<close>

definition mock_agent ::
  "search_hit list \<Rightarrow> bool \<times> string \<Rightarrow> bool \<times> string \<Rightarrow> bool \<times> string \<Rightarrow> unit agent" where
  "mock_agent hits scrape_value summarize_value comprehensive_value =
     \<lparr>search_tool_get_top_results = (\<lambda>query num_results s. (hits, s)),
      scraper_scrape = (\<lambda>url s. (scrape_value, s)),
      summarizer_summarize = (\<lambda>text query is_brief s. (summarize_value, s)),
      summarizer_create_comprehensive_summary =
        (\<lambda>summaries query s. (comprehensive_value, s))\<rparr>"

text \<open>The hit that the mocked search of test-agent.py returns.\<close>

definition test_hit :: search_hit where
  "test_hit = \<lparr>title = ''Test Result'', link = ''https://example.com'',
                snippet = ''Test snippet''\<rparr>"

section \<open>Mocked network (test-search-tool.py, test-scraper.py, test-summarizer.py)\<close>

text \<open>
  The environment of the tests of the three components: the answers to the requests are
  registered in advance, here as a function of the number of requests made so far (the
  world); \<open>time.sleep\<close> is patched away; the model is a mock whose \<open>generate_content\<close>
  has one fixed outcome. The text of a response is taken as the text of its main
  content, and a URL is valid when it starts with \<open>https://\<close> and goes on.
\<close>

definition mock_env ::
  "(nat \<Rightarrow> raised + response) \<Rightarrow> (response \<Rightarrow> string + json_object list option) \<Rightarrow>
     generation \<Rightarrow> nat env" where
  "mock_env registered js gen =
     \<lparr>requests_get = (\<lambda>req w. (registered w, Suc w)),
      time_sleep = (\<lambda>secs w. w),
      generate_content = (\<lambda>name prompt w. (gen, w)),
      http_error_message = (\<lambda>resp. str_nat (status_code resp) @ '' Error''),
      response_json = js,
      urlparse = (\<lambda>url. if take 8 url = ''https://'' \<and> drop 8 url \<noteq> []
                         then Inr (''https'', drop 8 url) else Inr ([], [])),
      soup_get_text = Inr\<rparr>"

text \<open>A response with a status, a content type and a text.\<close>

definition mock_response :: "nat \<Rightarrow> string \<Rightarrow> string \<Rightarrow> response" where
  "mock_response status ctype body =
     \<lparr>status_code = status,
      response_headers = (\<lambda>k. if k = ''Content-Type'' then Some ctype else None),
      response_text = body\<rparr>"

text \<open>
  Answers registered in order, one for each request; the last one is given again to
  every later request, and with no answer registered the request fails to connect.
\<close>

definition in_order :: "(raised + response) list \<Rightarrow> nat \<Rightarrow> raised + response" where
  "in_order answers k =
     (if answers = [] then Inl (RequestException ''Connection refused'')
      else answers ! min k (length answers - 1))"

text \<open>A JSON body that is the same for every response.\<close>

definition json_body :: "json_object list option \<Rightarrow> response \<Rightarrow> string + json_object list option" where
  "json_body body resp = Inr body"

text \<open>
  The first result of \<open>MOCK_SERPAPI_RESPONSE\<close> in test-search-tool.py (its keys with a
  string value), and the search tool of the tests.
\<close>

definition mock_result_1 :: json_object where
  "mock_result_1 =
     [''title'' \<mapsto> ''Test Result 1'', ''link'' \<mapsto> ''https://example.com/1'',
      ''snippet'' \<mapsto> ''This is the first test result.'']"

definition mock_search_tool :: serp_api_search_tool where
  "mock_search_tool = \<lparr>serp_api_key = ''mock_api_key'', base_url = ''https://serpapi.com/search''\<rparr>"

section \<open>Properties of the research pipeline\<close>

text \<open>
  C1. When the search returns no hit, \<open>research\<close> returns success \<open>False\<close>, the error
  \<open>No search results found\<close>, an empty list of results and no comprehensive summary.
  The state afterwards is the state the search left, and the only call recorded is the
  search: neither the scraper nor the summarizer is called.
\<close>

theorem research_no_hits:
  assumes "search_tool_get_top_results self query num_results (st r) = ([], s')"
  shows "research self query num_results brief_summaries r =
     (\<lparr>rr_success = False, rr_error = Some ''No search results found'', rr_query = None,
       rr_results = [], rr_comprehensive_summary = None\<rparr>,
      \<lparr>st = s', calls = calls r @ [GetTopResults query num_results]\<rparr>)"
  using assms by (simp add: research_def call_get_top_results_def)

theorem research_no_hits_witness:
  "search_tool_get_top_results (mock_agent [] (False, ''x'') (False, ''y'') (False, ''z''))
     ''test query'' 5 (st \<lparr>st = (), calls = []\<rparr>) = ([], ())
   \<and> research (mock_agent [] (False, ''x'') (False, ''y'') (False, ''z'')) ''test query'' 5 False
       \<lparr>st = (), calls = []\<rparr> =
     (\<lparr>rr_success = False, rr_error = Some ''No search results found'', rr_query = None,
       rr_results = [], rr_comprehensive_summary = None\<rparr>,
      \<lparr>st = (), calls = [GetTopResults ''test query'' 5]\<rparr>)"
  using research_no_hits [of "mock_agent [] (False, ''x'') (False, ''y'') (False, ''z'')"
      "''test query''" 5 "\<lparr>st = (), calls = []\<rparr>" "()" False]
  by (simp add: mock_agent_def)

subsection \<open>The loop body and the loop\<close>

lemma process_result_scrape_failed:
  assumes "scraper_scrape self (link hit) (st r) = ((False, e), s1)"
  shows "process_result self query brief hit succ r =
     (\<lparr>title = title hit, link = link hit, snippet = snippet hit, success = False,
       error = Some e, summary = None, content = None\<rparr>,
      succ, \<lparr>st = s1, calls = calls r @ [Scrape (link hit)]\<rparr>)"
  using assms by (simp add: process_result_def call_scrape_def)

lemma process_result_summarize_failed:
  assumes "scraper_scrape self (link hit) (st r) = ((True, c), s1)"
    and "summarizer_summarize self c query brief s1 = ((False, e), s2)"
  shows "process_result self query brief hit succ r =
     (\<lparr>title = title hit, link = link hit, snippet = snippet hit, success = False,
       error = Some e, summary = None, content = None\<rparr>,
      succ, \<lparr>st = s2, calls = calls r @ [Scrape (link hit), Summarize c query brief]\<rparr>)"
  using assms by (simp add: process_result_def call_scrape_def call_summarize_def)

lemma process_result_succeeded:
  assumes "scraper_scrape self (link hit) (st r) = ((True, c), s1)"
    and "summarizer_summarize self c query brief s1 = ((True, sm), s2)"
  shows "process_result self query brief hit succ r =
     (\<lparr>title = title hit, link = link hit, snippet = snippet hit, success = True,
       error = None, summary = Some sm,
       content = Some (if length c > 1000 then take 1000 c @ ''...'' else c)\<rparr>,
      succ @ [\<lparr>src_title = title hit, src_link = link hit, src_summary = sm\<rparr>],
      \<lparr>st = s2, calls = calls r @ [Scrape (link hit), Summarize c query brief]\<rparr>)"
  using assms by (simp add: process_result_def call_scrape_def call_summarize_def)

text \<open>The three ways through the loop body.\<close>

lemma process_result_cases:
  obtains (scrape_failed) e s1 where "scraper_scrape self (link hit) (st r) = ((False, e), s1)"
  | (summarize_failed) c s1 e s2 where "scraper_scrape self (link hit) (st r) = ((True, c), s1)"
      "summarizer_summarize self c query brief s1 = ((False, e), s2)"
  | (succeeded) c s1 sm s2 where "scraper_scrape self (link hit) (st r) = ((True, c), s1)"
      "summarizer_summarize self c query brief s1 = ((True, sm), s2)"
proof -
  obtain ok c s1 where a: "scraper_scrape self (link hit) (st r) = ((ok, c), s1)"
    by (metis surj_pair)
  obtain ok2 t s2 where b: "summarizer_summarize self c query brief s1 = ((ok2, t), s2)"
    by (metis surj_pair)
  show thesis
    using a b scrape_failed summarize_failed succeeded by (cases ok; cases ok2) auto
qed

lemma process_results_append:
  "process_results self query brief (xs @ ys) succ r =
     (case process_results self query brief xs succ r of
        (items1, succ1, r1) \<Rightarrow>
          (case process_results self query brief ys succ1 r1 of
             (items2, succ2, r2) \<Rightarrow> (items1 @ items2, succ2, r2)))"
  by (induction xs arbitrary: succ r) (auto split: prod.splits)

lemma process_results_length:
  "process_results self query brief hits succ r = (items, succ', r') \<Longrightarrow>
     length items = length hits"
  by (induction hits arbitrary: succ r items succ' r') (auto split: prod.splits)


lemma process_results_items:
  "process_results self query brief hits succ r = (items, succ', r') \<Longrightarrow>
     list_all2 (\<lambda>hit item. \<exists>sc rn. fst (process_result self query brief hit sc rn) = item)
       hits items"
proof (induction hits arbitrary: succ r items succ' r')
  case Nil
  then show ?case by simp
next
  case (Cons hit hits)
  obtain item sc1 r1 where a: "process_result self query brief hit succ r = (item, sc1, r1)"
    by (metis prod_cases3)
  obtain rest sc2 r2 where b: "process_results self query brief hits sc1 r1 = (rest, sc2, r2)"
    by (metis prod_cases3)
  from Cons.prems a b have c: "items = item # rest" by simp
  have "fst (process_result self query brief hit succ r) = item" using a by simp
  then have "\<exists>sc rn. fst (process_result self query brief hit sc rn) = item" by blast
  then show ?case using Cons.IH [OF b] c by simp
qed

lemma process_result_succ:
  "process_result self query brief hit succ r = (item, succ', r') \<Longrightarrow>
     length succ' = length succ + (if success item then 1 else 0)"
  by (rule process_result_cases [where self = self and hit = hit and r = r
        and query = query and brief = brief])
     (auto simp: process_result_scrape_failed process_result_summarize_failed
        process_result_succeeded)

lemma process_results_succ:
  "process_results self query brief hits succ r = (items, succ', r') \<Longrightarrow>
     length succ' = length succ + length (filter success items)"
proof (induction hits arbitrary: succ r items succ' r')
  case Nil
  then show ?case by simp
next
  case (Cons hit hits)
  obtain item sc1 r1 where a: "process_result self query brief hit succ r = (item, sc1, r1)"
    by (metis prod_cases3)
  obtain rest sc2 r2 where b: "process_results self query brief hits sc1 r1 = (rest, sc2, r2)"
    by (metis prod_cases3)
  from Cons.prems a b have c: "items = item # rest" "succ' = sc2" by simp_all
  show ?case using Cons.IH [OF b] process_result_succ [OF a] c by simp
qed

lemma process_results_nonempty_iff:
  assumes "process_results self query brief hits [] r = (items, succ', r')"
  shows "succ' \<noteq> [] \<longleftrightarrow> (\<exists>item \<in> set items. success item)"
proof -
  have "length succ' = length (filter success items)"
    using process_results_succ [OF assms] by simp
  then have "succ' \<noteq> [] \<longleftrightarrow> filter success items \<noteq> []" by auto
  then show ?thesis by (simp add: filter_empty_conv)
qed

lemma process_result_other_synthesis:
  "process_result (self\<lparr>summarizer_create_comprehensive_summary := f\<rparr>) query brief hit succ r =
     process_result self query brief hit succ r"
  by (auto simp: process_result_def call_scrape_def call_summarize_def Let_def
      split: prod.splits)

lemma process_results_other_synthesis:
  "process_results (self\<lparr>summarizer_create_comprehensive_summary := f\<rparr>) query brief hits succ r =
     process_results self query brief hits succ r"
  by (induction hits arbitrary: succ r) (simp_all add: process_result_other_synthesis)

text \<open>research, once the search and the loop are known.\<close>

lemma research_unfold:
  assumes "search_tool_get_top_results self query num_results (st r) = (hits, s1)"
    and "process_results self query brief hits []
           \<lparr>st = s1, calls = calls r @ [GetTopResults query num_results]\<rparr> = (items, succ, r2)"
    and "hits \<noteq> []"
  shows "research self query num_results brief r =
     (\<lparr>rr_success = (succ \<noteq> []), rr_error = None, rr_query = Some query, rr_results = items,
       rr_comprehensive_summary =
         (if succ \<noteq> [] \<and> fst (fst (summarizer_create_comprehensive_summary self succ query (st r2)))
          then Some (snd (fst (summarizer_create_comprehensive_summary self succ query (st r2))))
          else None)\<rparr>,
      if succ \<noteq> [] then
        \<lparr>st = snd (summarizer_create_comprehensive_summary self succ query (st r2)),
         calls = calls r2 @ [CreateComprehensiveSummary succ query]\<rparr>
      else r2)"
  using assms
  by (auto simp: research_def call_get_top_results_def synthesis_step_def
      call_create_comprehensive_summary_def split: prod.splits)


lemma process_results_at:
  assumes "process_results self query brief pre succ0 r0 = (items_pre, succ, r)"
    and "process_results self query brief (pre @ [hit]) succ0 r0 = (items_next, succ_next, r_next)"
    and "process_results self query brief (pre @ hit # post) succ0 r0 = (items, succ_end, r_end)"
  shows "items ! length pre = fst (process_result self query brief hit succ r)"
    and "(succ_next, r_next) = snd (process_result self query brief hit succ r)"
proof -
  obtain item sc1 r1 where a: "process_result self query brief hit succ r = (item, sc1, r1)"
    by (metis prod_cases3)
  obtain rest sc2 r2 where b: "process_results self query brief post sc1 r1 = (rest, sc2, r2)"
    by (metis prod_cases3)
  have len: "length items_pre = length pre"
    using assms(1) by (rule process_results_length)
  have "items = items_pre @ item # rest"
    using assms(1,3) a b by (simp add: process_results_append)
  then show "items ! length pre = fst (process_result self query brief hit succ r)"
    using len a by (simp add: nth_append)
  show "(succ_next, r_next) = snd (process_result self query brief hit succ r)"
    using assms(1,2) a by (simp add: process_results_append)
qed

text \<open>
  C2. The field \<open>success\<close> of the result is true exactly when some item of the
  results has \<open>success\<close> true. This holds for every run (with no hit both sides are
  false), and the field does not depend on the synthesis: replacing
  \<open>create_comprehensive_summary\<close> by any other function \<open>f\<close> leaves it as it is.
\<close>

theorem research_success_iff:
  "(rr_success (fst (research self query num_results brief r)) \<longleftrightarrow>
      (\<exists>item \<in> set (rr_results (fst (research self query num_results brief r))). success item))
   \<and> rr_success (fst (research (self\<lparr>summarizer_create_comprehensive_summary := f\<rparr>)
         query num_results brief r)) =
       rr_success (fst (research self query num_results brief r))"
proof -
  obtain hits s1 where a: "search_tool_get_top_results self query num_results (st r) = (hits, s1)"
    by (metis surj_pair)
  let ?r1 = "\<lparr>st = s1, calls = calls r @ [GetTopResults query num_results]\<rparr>"
  let ?self' = "self\<lparr>summarizer_create_comprehensive_summary := f\<rparr>"
  obtain items succ r2 where b: "process_results self query brief hits [] ?r1 = (items, succ, r2)"
    by (metis prod_cases3)
  have a': "search_tool_get_top_results ?self' query num_results (st r) = (hits, s1)"
    using a by simp
  have b': "process_results ?self' query brief hits [] ?r1 = (items, succ, r2)"
    using b by (simp add: process_results_other_synthesis)
  show ?thesis
  proof (cases "hits = []")
    case True
    then show ?thesis
      using a a' by (simp add: research_def call_get_top_results_def)
  next
    case False
    have "succ \<noteq> [] \<longleftrightarrow> (\<exists>item \<in> set items. success item)"
      using b by (rule process_results_nonempty_iff)
    then show ?thesis
      by (simp add: research_unfold [OF a b False] research_unfold [OF a' b' False])
  qed
qed


theorem research_success_iff_witness:
  "(\<exists>item \<in> set (rr_results (fst (research
        (mock_agent
           [\<lparr>title = ''Test Result'', link = ''https://example.com'', snippet = ''Test snippet''\<rparr>]
           (True, ''Test content'') (True, ''Test summary'') (False, ''Failed''))
        ''test query'' 5 False \<lparr>st = (), calls = []\<rparr>))). success item)
   \<and> rr_success (fst (research
        (mock_agent
           [\<lparr>title = ''Test Result'', link = ''https://example.com'', snippet = ''Test snippet''\<rparr>]
           (True, ''Test content'') (True, ''Test summary'') (False, ''Failed''))
        ''test query'' 5 False \<lparr>st = (), calls = []\<rparr>))
   \<and> rr_comprehensive_summary (fst (research
        (mock_agent
           [\<lparr>title = ''Test Result'', link = ''https://example.com'', snippet = ''Test snippet''\<rparr>]
           (True, ''Test content'') (True, ''Test summary'') (False, ''Failed''))
        ''test query'' 5 False \<lparr>st = (), calls = []\<rparr>)) = None"
  using research_success_iff [of
      "mock_agent
         [\<lparr>title = ''Test Result'', link = ''https://example.com'', snippet = ''Test snippet''\<rparr>]
         (True, ''Test content'') (True, ''Test summary'') (False, ''Failed'')"
      "''test query''" 5 False "\<lparr>st = (), calls = []\<rparr>"]
  by (simp add: mock_agent_def research_def call_get_top_results_def process_result_def
      call_scrape_def call_summarize_def synthesis_step_def
      call_create_comprehensive_summary_def)

text \<open>
  C3. In every run, with \<open>succ\<close> the list \<open>successful_summaries\<close> after the loop and
  \<open>r2\<close> the run then: the comprehensive summary of the result is not \<open>None\<close> exactly
  when \<open>succ\<close> is not empty and \<open>create_comprehensive_summary\<close>, called on \<open>succ\<close>,
  returns success, and it is then the text of that call; \<open>succ\<close> is not empty exactly
  when some item succeeded; the synthesis is called once when \<open>succ\<close> is not empty and
  not at all otherwise; and with at least one hit the result has no key \<open>error\<close> and
  its \<open>success\<close> is that of the items, whether the synthesis failed or not.
\<close>

theorem comprehensive_summary_iff:
  assumes "call_get_top_results self query num_results r = (hits, r1)"
    and "process_results self query brief hits [] r1 = (items, succ, r2)"
    and "research self query num_results brief r = (res, r3)"
  shows "(rr_comprehensive_summary res \<noteq> None \<longleftrightarrow>
            succ \<noteq> [] \<and>
            fst (fst (summarizer_create_comprehensive_summary self succ query (st r2))))
       \<and> (\<forall>t. rr_comprehensive_summary res = Some t \<longrightarrow>
              fst (summarizer_create_comprehensive_summary self succ query (st r2)) = (True, t))
       \<and> (succ \<noteq> [] \<longleftrightarrow> (\<exists>item \<in> set (rr_results res). success item))
       \<and> calls r3 = calls r2 @ (if succ \<noteq> [] then [CreateComprehensiveSummary succ query] else [])
       \<and> (hits \<noteq> [] \<longrightarrow> rr_error res = None \<and> rr_success res = (succ \<noteq> []))"
proof (cases "hits = []")
  case True
  then show ?thesis
    using assms by (auto simp: research_def)
next
  case False
  obtain s1 where a: "search_tool_get_top_results self query num_results (st r) = (hits, s1)"
    and r1: "r1 = \<lparr>st = s1, calls = calls r @ [GetTopResults query num_results]\<rparr>"
    using assms(1) by (auto simp: call_get_top_results_def split: prod.splits)
  have b: "process_results self query brief hits []
             \<lparr>st = s1, calls = calls r @ [GetTopResults query num_results]\<rparr> = (items, succ, r2)"
    using assms(2) r1 by simp
  have ne: "succ \<noteq> [] \<longleftrightarrow> (\<exists>item \<in> set items. success item)"
    using b by (rule process_results_nonempty_iff)
  show ?thesis
    using assms(3) ne unfolding research_unfold [OF a b False]
    by (cases "summarizer_create_comprehensive_summary self succ query (st r2)")
       (auto split: if_splits)
qed


theorem comprehensive_summary_iff_witness:
  "call_get_top_results
       (mock_agent [test_hit] (True, ''Test content'') (True, ''Test summary'') (False, ''Failed''))
       ''test query'' 5 \<lparr>st = (), calls = []\<rparr> =
     ([test_hit], \<lparr>st = (), calls = [GetTopResults ''test query'' 5]\<rparr>)
   \<and> process_results
       (mock_agent [test_hit] (True, ''Test content'') (True, ''Test summary'') (False, ''Failed''))
       ''test query'' False [test_hit] [] \<lparr>st = (), calls = [GetTopResults ''test query'' 5]\<rparr> =
     ([\<lparr>title = ''Test Result'', link = ''https://example.com'', snippet = ''Test snippet'',
        success = True, error = None, summary = Some ''Test summary'',
        content = Some ''Test content''\<rparr>],
      [\<lparr>src_title = ''Test Result'', src_link = ''https://example.com'',
        src_summary = ''Test summary''\<rparr>],
      \<lparr>st = (), calls = [GetTopResults ''test query'' 5, Scrape ''https://example.com'',
                          Summarize ''Test content'' ''test query'' False]\<rparr>)
   \<and> research
       (mock_agent [test_hit] (True, ''Test content'') (True, ''Test summary'') (False, ''Failed''))
       ''test query'' 5 False \<lparr>st = (), calls = []\<rparr> =
     (\<lparr>rr_success = True, rr_error = None, rr_query = Some ''test query'',
       rr_results =
         [\<lparr>title = ''Test Result'', link = ''https://example.com'', snippet = ''Test snippet'',
           success = True, error = None, summary = Some ''Test summary'',
           content = Some ''Test content''\<rparr>],
       rr_comprehensive_summary = None\<rparr>,
      \<lparr>st = (), calls = [GetTopResults ''test query'' 5, Scrape ''https://example.com'',
                          Summarize ''Test content'' ''test query'' False,
                          CreateComprehensiveSummary
                            [\<lparr>src_title = ''Test Result'', src_link = ''https://example.com'',
                              src_summary = ''Test summary''\<rparr>] ''test query'']\<rparr>)
   \<and> \<not> fst (fst (summarizer_create_comprehensive_summary
       (mock_agent [test_hit] (True, ''Test content'') (True, ''Test summary'') (False, ''Failed''))
       [\<lparr>src_title = ''Test Result'', src_link = ''https://example.com'',
         src_summary = ''Test summary''\<rparr>] ''test query'' ()))"
proof -
  let ?self = "mock_agent [test_hit] (True, ''Test content'') (True, ''Test summary'')
                 (False, ''Failed'')"
  let ?r = "\<lparr>st = (), calls = []\<rparr> :: unit run"
  let ?r1 = "\<lparr>st = (), calls = [GetTopResults ''test query'' 5]\<rparr> :: unit run"
  let ?item = "\<lparr>title = ''Test Result'', link = ''https://example.com'',
                 snippet = ''Test snippet'', success = True, error = None,
                 summary = Some ''Test summary'', content = Some ''Test content''\<rparr>"
  let ?src = "\<lparr>src_title = ''Test Result'', src_link = ''https://example.com'',
                src_summary = ''Test summary''\<rparr>"
  let ?r2 = "\<lparr>st = (), calls = [GetTopResults ''test query'' 5, Scrape ''https://example.com'',
                          Summarize ''Test content'' ''test query'' False]\<rparr> :: unit run"
  let ?res = "\<lparr>rr_success = True, rr_error = None, rr_query = Some ''test query'',
                rr_results = [?item], rr_comprehensive_summary = None\<rparr>"
  let ?r3 = "\<lparr>st = (), calls = [GetTopResults ''test query'' 5, Scrape ''https://example.com'',
                          Summarize ''Test content'' ''test query'' False,
                          CreateComprehensiveSummary [?src] ''test query'']\<rparr> :: unit run"
  have a: "call_get_top_results ?self ''test query'' 5 ?r = ([test_hit], ?r1)"
    by (simp add: mock_agent_def call_get_top_results_def)
  have b: "process_results ?self ''test query'' False [test_hit] [] ?r1 = ([?item], [?src], ?r2)"
    by (simp add: mock_agent_def test_hit_def process_result_def call_scrape_def
        call_summarize_def)
  have c: "research ?self ''test query'' 5 False ?r = (?res, ?r3)"
    by (simp add: mock_agent_def test_hit_def research_def call_get_top_results_def
        process_result_def call_scrape_def call_summarize_def synthesis_step_def
        call_create_comprehensive_summary_def)
  have d: "\<not> fst (fst (summarizer_create_comprehensive_summary ?self [?src] ''test query'' ()))"
    by (simp add: mock_agent_def)
  from comprehensive_summary_iff [OF a b c] a b c d show ?thesis by simp
qed

text \<open>
  C4. A hit at any place of the loop: \<open>pre\<close> are the hits before it, \<open>post\<close> those
  after it, \<open>succ\<close> and \<open>r\<close> the list \<open>successful_summaries\<close> and the run when the
  loop reaches the hit, \<open>succ_next\<close> and \<open>r_next\<close> the same just after the hit, and
  \<open>items\<close> the results of the whole loop. If the scraper fails on the hit with the
  message \<open>e\<close>, the item of the hit has \<open>success\<close> false and the error \<open>e\<close>, the
  list \<open>successful_summaries\<close> is unchanged, and the only call made for the hit is the
  one of the scraper: the summarizer is not called. If the scraper succeeds with the
  text \<open>c\<close> and the summarizer fails on \<open>c\<close> with the message \<open>e\<close>, the item has
  \<open>success\<close> false and the error \<open>e\<close>, and the list \<open>successful_summaries\<close> is
  unchanged.
\<close>

theorem failed_hit_item:
  assumes "process_results self query brief pre succ0 r0 = (items_pre, succ, r)"
    and "process_results self query brief (pre @ [hit]) succ0 r0 = (items_next, succ_next, r_next)"
    and "process_results self query brief (pre @ hit # post) succ0 r0 = (items, succ_end, r_end)"
  shows "(\<forall>e s1. scraper_scrape self (link hit) (st r) = ((False, e), s1) \<longrightarrow>
            items ! length pre =
              \<lparr>title = title hit, link = link hit, snippet = snippet hit, success = False,
               error = Some e, summary = None, content = None\<rparr>
            \<and> succ_next = succ
            \<and> r_next = \<lparr>st = s1, calls = calls r @ [Scrape (link hit)]\<rparr>)
       \<and> (\<forall>c s1 e s2. scraper_scrape self (link hit) (st r) = ((True, c), s1)
              \<and> summarizer_summarize self c query brief s1 = ((False, e), s2) \<longrightarrow>
            items ! length pre =
              \<lparr>title = title hit, link = link hit, snippet = snippet hit, success = False,
               error = Some e, summary = None, content = None\<rparr>
            \<and> succ_next = succ
            \<and> r_next = \<lparr>st = s2, calls = calls r @ [Scrape (link hit), Summarize c query brief]\<rparr>)"
  using process_results_at [OF assms]
  by (auto simp: process_result_scrape_failed process_result_summarize_failed)

theorem failed_hit_item_witness:
  "process_results
       (mock_agent [test_hit] (False, ''Failed to scrape content'') (True, ''Test summary'')
          (True, ''Comprehensive summary''))
       ''test query'' False [] [] \<lparr>st = (), calls = [GetTopResults ''test query'' 5]\<rparr> =
     ([], [], \<lparr>st = (), calls = [GetTopResults ''test query'' 5]\<rparr>)
   \<and> process_results
       (mock_agent [test_hit] (False, ''Failed to scrape content'') (True, ''Test summary'')
          (True, ''Comprehensive summary''))
       ''test query'' False ([] @ [test_hit]) []
       \<lparr>st = (), calls = [GetTopResults ''test query'' 5]\<rparr> =
     ([\<lparr>title = ''Test Result'', link = ''https://example.com'', snippet = ''Test snippet'',
        success = False, error = Some ''Failed to scrape content'', summary = None,
        content = None\<rparr>],
      [], \<lparr>st = (), calls = [GetTopResults ''test query'' 5, Scrape ''https://example.com'']\<rparr>)
   \<and> scraper_scrape
       (mock_agent [test_hit] (False, ''Failed to scrape content'') (True, ''Test summary'')
          (True, ''Comprehensive summary''))
       (link test_hit) () = ((False, ''Failed to scrape content''), ())"
proof -
  let ?self = "mock_agent [test_hit] (False, ''Failed to scrape content'') (True, ''Test summary'')
                 (True, ''Comprehensive summary'')"
  let ?r = "\<lparr>st = (), calls = [GetTopResults ''test query'' 5]\<rparr> :: unit run"
  let ?item = "\<lparr>title = ''Test Result'', link = ''https://example.com'',
                 snippet = ''Test snippet'', success = False,
                 error = Some ''Failed to scrape content'', summary = None, content = None\<rparr>"
  let ?r' = "\<lparr>st = (), calls = [GetTopResults ''test query'' 5,
                                   Scrape ''https://example.com'']\<rparr> :: unit run"
  have a: "process_results ?self ''test query'' False [] [] ?r = ([], [], ?r)"
    by simp
  have b: "process_results ?self ''test query'' False ([] @ [test_hit]) [] ?r = ([?item], [], ?r')"
    by (simp add: mock_agent_def test_hit_def process_result_def call_scrape_def)
  have c: "process_results ?self ''test query'' False ([] @ test_hit # []) [] ?r = ([?item], [], ?r')"
    using b by simp
  have d: "scraper_scrape ?self (link test_hit) (st ?r) = ((False, ''Failed to scrape content''), ())"
    by (simp add: mock_agent_def)
  from failed_hit_item [OF a b c] a b d show ?thesis by simp
qed

lemma process_result_item:
  assumes "fst (process_result self query brief hit sc rn) = item"
  shows "title item = title hit \<and> link item = link hit \<and> snippet item = snippet hit
       \<and> (success item \<longrightarrow>
            error item = None
            \<and> (\<exists>c sm s s1 s2.
                  scraper_scrape self (link item) s = ((True, c), s1)
                  \<and> summarizer_summarize self c query brief s1 = ((True, sm), s2)
                  \<and> summary item = Some sm
                  \<and> content item = Some (if length c > 1000 then take 1000 c @ ''...'' else c)))
       \<and> (\<not> success item \<longrightarrow>
            summary item = None \<and> content item = None
            \<and> (\<exists>e. error item = Some e
                  \<and> ((\<exists>s s1. scraper_scrape self (link item) s = ((False, e), s1))
                     \<or> (\<exists>c s s1 s2.
                           scraper_scrape self (link item) s = ((True, c), s1)
                           \<and> summarizer_summarize self c query brief s1 = ((False, e), s2)))))"
proof (rule process_result_cases [where self = self and hit = hit and r = rn
        and query = query and brief = brief])
  fix e s1
  assume a: "scraper_scrape self (link hit) (st rn) = ((False, e), s1)"
  have "item = \<lparr>title = title hit, link = link hit, snippet = snippet hit, success = False,
                 error = Some e, summary = None, content = None\<rparr>"
    using assms process_result_scrape_failed [OF a] by simp
  then show ?thesis using a by auto
next
  fix c s1 e s2
  assume a: "scraper_scrape self (link hit) (st rn) = ((True, c), s1)"
    and b: "summarizer_summarize self c query brief s1 = ((False, e), s2)"
  have "item = \<lparr>title = title hit, link = link hit, snippet = snippet hit, success = False,
                 error = Some e, summary = None, content = None\<rparr>"
    using assms process_result_summarize_failed [OF a b] by simp
  then show ?thesis using a b by auto
next
  fix c s1 sm s2
  assume a: "scraper_scrape self (link hit) (st rn) = ((True, c), s1)"
    and b: "summarizer_summarize self c query brief s1 = ((True, sm), s2)"
  have "item = \<lparr>title = title hit, link = link hit, snippet = snippet hit, success = True,
                 error = None, summary = Some sm,
                 content = Some (if length c > 1000 then take 1000 c @ ''...'' else c)\<rparr>"
    using assms process_result_succeeded [OF a b] by simp
  then show ?thesis using a b by (simp del: split_paired_Ex) blast
qed


text \<open>
  C10. The results of \<open>research\<close> have one item for each hit of the search, in the
  order of the hits, with the title, the link and the snippet of its hit. An item with
  \<open>success\<close> true has no error, the summary that the summarizer returned for a text
  \<open>c\<close> that the scraper returned for the link of the item, and as content \<open>c\<close>
  itself, or its first 1000 characters followed by three full stops when \<open>c\<close> is
  longer than 1000. An item with \<open>success\<close> false has neither summary nor content,
  and the error message of the scraper, or of the summarizer when the scraper succeeded.
\<close>

theorem research_results_per_hit:
  assumes "search_tool_get_top_results self query num_results (st r) = (hits, s')"
    and "rr_results (fst (research self query num_results brief r)) = results"
  shows "length results = length hits
       \<and> (\<forall>i < length hits.
             title (results ! i) = title (hits ! i)
             \<and> link (results ! i) = link (hits ! i)
             \<and> snippet (results ! i) = snippet (hits ! i))
       \<and> (\<forall>item \<in> set results.
            (success item \<longrightarrow>
               error item = None
               \<and> (\<exists>c sm s s1 s2.
                     scraper_scrape self (link item) s = ((True, c), s1)
                     \<and> summarizer_summarize self c query brief s1 = ((True, sm), s2)
                     \<and> summary item = Some sm
                     \<and> content item =
                         Some (if length c > 1000 then take 1000 c @ ''...'' else c)))
            \<and> (\<not> success item \<longrightarrow>
               summary item = None \<and> content item = None
               \<and> (\<exists>e. error item = Some e
                     \<and> ((\<exists>s s1. scraper_scrape self (link item) s = ((False, e), s1))
                        \<or> (\<exists>c s s1 s2.
                              scraper_scrape self (link item) s = ((True, c), s1)
                              \<and> summarizer_summarize self c query brief s1 =
                                  ((False, e), s2))))))"
proof (cases "hits = []")
  case True
  then have "results = []"
    using assms by (simp add: research_def call_get_top_results_def)
  then show ?thesis using True by simp
next
  case False
  let ?r1 = "\<lparr>st = s', calls = calls r @ [GetTopResults query num_results]\<rparr>"
  obtain items succ r2 where b: "process_results self query brief hits [] ?r1 = (items, succ, r2)"
    by (metis prod_cases3)
  have res: "results = items"
    using assms(2) by (simp add: research_unfold [OF assms(1) b False])
  have all2: "list_all2 (\<lambda>hit item. \<exists>sc rn. fst (process_result self query brief hit sc rn) = item)
                hits items"
    using b by (rule process_results_items)
  have len: "length items = length hits"
    using all2 by (simp add: list_all2_lengthD)
  have nth: "\<exists>sc rn. fst (process_result self query brief (hits ! i) sc rn) = items ! i"
    if "i < length hits" for i
    using all2 that by (simp add: list_all2_conv_all_nth)
  have fields: "title (items ! i) = title (hits ! i) \<and> link (items ! i) = link (hits ! i)
                \<and> snippet (items ! i) = snippet (hits ! i)" if lt: "i < length hits" for i
  proof -
    obtain sc rn where "fst (process_result self query brief (hits ! i) sc rn) = items ! i"
      using nth [OF lt] by blast
    then show ?thesis using process_result_item by blast
  qed
  have shape: "(success item \<longrightarrow>
               error item = None
               \<and> (\<exists>c sm s s1 s2.
                     scraper_scrape self (link item) s = ((True, c), s1)
                     \<and> summarizer_summarize self c query brief s1 = ((True, sm), s2)
                     \<and> summary item = Some sm
                     \<and> content item =
                         Some (if length c > 1000 then take 1000 c @ ''...'' else c)))
            \<and> (\<not> success item \<longrightarrow>
               summary item = None \<and> content item = None
               \<and> (\<exists>e. error item = Some e
                     \<and> ((\<exists>s s1. scraper_scrape self (link item) s = ((False, e), s1))
                        \<or> (\<exists>c s s1 s2.
                              scraper_scrape self (link item) s = ((True, c), s1)
                              \<and> summarizer_summarize self c query brief s1 =
                                  ((False, e), s2)))))" if mem: "item \<in> set items" for item
  proof -
    obtain i where i: "i < length items" "items ! i = item"
      using mem by (auto simp: in_set_conv_nth)
    obtain sc rn where "fst (process_result self query brief (hits ! i) sc rn) = item"
      using nth [of i] i len by auto
    from process_result_item [OF this] show ?thesis by blast
  qed
  show ?thesis
    unfolding res using len fields shape by blast
qed


theorem research_results_per_hit_witness:
  "search_tool_get_top_results
       (mock_agent [test_hit] (True, replicate 1200 (CHR ''x'')) (True, ''Test summary'')
          (True, ''Comprehensive summary''))
       ''test query'' 5 (st \<lparr>st = (), calls = []\<rparr>) = ([test_hit], ())
   \<and> rr_results (fst (research
       (mock_agent [test_hit] (True, replicate 1200 (CHR ''x'')) (True, ''Test summary'')
          (True, ''Comprehensive summary''))
       ''test query'' 5 False \<lparr>st = (), calls = []\<rparr>)) =
     [\<lparr>title = ''Test Result'', link = ''https://example.com'', snippet = ''Test snippet'',
       success = True, error = None, summary = Some ''Test summary'',
       content = Some (replicate 1000 (CHR ''x'') @ ''...'')\<rparr>]
   \<and> length [\<lparr>title = ''Test Result'', link = ''https://example.com'',
               snippet = ''Test snippet'', success = True, error = None,
               summary = Some ''Test summary'',
               content = Some (replicate 1000 (CHR ''x'') @ ''...'')\<rparr>] = length [test_hit]"
proof -
  let ?self = "mock_agent [test_hit] (True, replicate 1200 (CHR ''x'')) (True, ''Test summary'')
                 (True, ''Comprehensive summary'')"
  let ?r = "\<lparr>st = (), calls = []\<rparr> :: unit run"
  let ?item = "\<lparr>title = ''Test Result'', link = ''https://example.com'',
                 snippet = ''Test snippet'', success = True, error = None,
                 summary = Some ''Test summary'',
                 content = Some (replicate 1000 (CHR ''x'') @ ''...'')\<rparr>"
  have a: "search_tool_get_top_results ?self ''test query'' 5 (st ?r) = ([test_hit], ())"
    by (simp add: mock_agent_def)
  have b: "rr_results (fst (research ?self ''test query'' 5 False ?r)) = [?item]"
    by (simp add: mock_agent_def test_hit_def research_def call_get_top_results_def
        process_result_def call_scrape_def call_summarize_def synthesis_step_def
        call_create_comprehensive_summary_def)
  from research_results_per_hit [OF a b] a b show ?thesis by simp
qed

section \<open>Properties of the summarizer\<close>

lemma summarize_cases:
  assumes "generate_content e (model_name self)
             (create_summary_prompt page_text query
                (if is_brief then ''brief and concise (100-150 words)''
                 else ''comprehensive (300-500 words)'')) (world n) = (g, w')"
  shows "fst (summarize e self page_text query is_brief n) =
     (case g of
        Raises exn \<Rightarrow> (False, ''Failed to summarize: '' @ exn)
      | NoText \<Rightarrow> (False, ''Error: Unexpected response format from API'')
      | Text t \<Rightarrow> if length t < 50 then (False, ''Generated summary was too short or empty'')
                  else (True, t))"
  using assms
  by (cases g) (auto simp: summarize_def do_generate_def Let_def)

lemma create_comprehensive_summary_cases:
  assumes "generate_content e (model_name self)
             (create_comprehensive_prompt (combine_content 1 summaries []) query) (world n) = (g, w')"
  shows "fst (create_comprehensive_summary e self summaries query n) =
     (case g of
        Raises exn \<Rightarrow> (False, ''Failed to create comprehensive summary: '' @ exn)
      | NoText \<Rightarrow> (False, ''Error: Unexpected response format from API'')
      | Text t \<Rightarrow> (True, t))"
  using assms
  by (cases g) (auto simp: create_comprehensive_summary_def do_generate_def Let_def)


text \<open>
  C8. With \<open>g\<close> what the provider gives for the prompt of \<open>summarize\<close>: an exception
  gives the failure \<open>Failed to summarize:\<close> followed by its message, a response without
  text the failure \<open>Error: Unexpected response format from API\<close>, a text shorter than
  50 characters the failure \<open>Generated summary was too short or empty\<close>, and a text of
  50 characters or more is returned with success. The three messages differ from one
  another. With \<open>g2\<close> what the provider gives for the prompt of
  \<open>create_comprehensive_summary\<close>: an exception and a response without text give a
  failure in the same way, and every text, however short, is returned with success.
\<close>

theorem summarizer_failures:
  assumes "generate_content e (model_name self)
             (create_summary_prompt page_text query
                (if is_brief then ''brief and concise (100-150 words)''
                 else ''comprehensive (300-500 words)'')) (world n) = (g, w')"
    and "generate_content e (model_name self)
             (create_comprehensive_prompt (combine_content 1 summaries []) query) (world n2) =
           (g2, w2)"
  shows "(\<forall>exn. g = Raises exn \<longrightarrow>
            fst (summarize e self page_text query is_brief n) =
              (False, ''Failed to summarize: '' @ exn))
       \<and> (g = NoText \<longrightarrow>
            fst (summarize e self page_text query is_brief n) =
              (False, ''Error: Unexpected response format from API''))
       \<and> (\<forall>t. g = Text t \<and> length t < 50 \<longrightarrow>
            fst (summarize e self page_text query is_brief n) =
              (False, ''Generated summary was too short or empty''))
       \<and> (\<forall>t. g = Text t \<and> 50 \<le> length t \<longrightarrow>
            fst (summarize e self page_text query is_brief n) = (True, t))
       \<and> (\<forall>exn. ''Failed to summarize: '' @ exn \<noteq> ''Error: Unexpected response format from API''
              \<and> ''Failed to summarize: '' @ exn \<noteq> ''Generated summary was too short or empty'')
       \<and> ''Error: Unexpected response format from API'' \<noteq>
           ''Generated summary was too short or empty''
       \<and> (\<forall>exn. g2 = Raises exn \<longrightarrow>
            fst (create_comprehensive_summary e self summaries query n2) =
              (False, ''Failed to create comprehensive summary: '' @ exn))
       \<and> (g2 = NoText \<longrightarrow>
            fst (create_comprehensive_summary e self summaries query n2) =
              (False, ''Error: Unexpected response format from API''))
       \<and> (\<forall>t. g2 = Text t \<longrightarrow>
            fst (create_comprehensive_summary e self summaries query n2) = (True, t))"
  using summarize_cases [OF assms(1)] create_comprehensive_summary_cases [OF assms(2)]
  by auto

theorem summarizer_failures_witness:
  "generate_content (mock_env (\<lambda>k. Inl (Timeout [])) (\<lambda>resp. Inr None) (Text ''Short.''))
       (model_name \<lparr>gemini_api_key = ''mock_api_key'', model_name = ''gemini-1.5-pro''\<rparr>)
       (create_summary_prompt ''This is test content.'' ''test query''
          (if False then ''brief and concise (100-150 words)''
           else ''comprehensive (300-500 words)''))
       (world \<lparr>world = 0, io_log = []\<rparr>) = (Text ''Short.'', 0)
   \<and> generate_content (mock_env (\<lambda>k. Inl (Timeout [])) (\<lambda>resp. Inr None) (Text ''Short.''))
       (model_name \<lparr>gemini_api_key = ''mock_api_key'', model_name = ''gemini-1.5-pro''\<rparr>)
       (create_comprehensive_prompt (combine_content 1 [] []) ''test query'')
       (world \<lparr>world = 0, io_log = []\<rparr>) = (Text ''Short.'', 0)
   \<and> fst (summarize (mock_env (\<lambda>k. Inl (Timeout [])) (\<lambda>resp. Inr None) (Text ''Short.''))
       \<lparr>gemini_api_key = ''mock_api_key'', model_name = ''gemini-1.5-pro''\<rparr>
       ''This is test content.'' ''test query'' False \<lparr>world = 0, io_log = []\<rparr>) =
     (False, ''Generated summary was too short or empty'')
   \<and> fst (create_comprehensive_summary
       (mock_env (\<lambda>k. Inl (Timeout [])) (\<lambda>resp. Inr None) (Text ''Short.''))
       \<lparr>gemini_api_key = ''mock_api_key'', model_name = ''gemini-1.5-pro''\<rparr>
       [] ''test query'' \<lparr>world = 0, io_log = []\<rparr>) = (True, ''Short.'')"
proof -
  let ?e = "mock_env (\<lambda>k. Inl (Timeout [])) (\<lambda>resp. Inr None) (Text ''Short.'')"
  let ?self = "\<lparr>gemini_api_key = ''mock_api_key'', model_name = ''gemini-1.5-pro''\<rparr>"
  let ?n = "\<lparr>world = 0, io_log = []\<rparr> :: nat net"
  have a: "generate_content ?e (model_name ?self)
       (create_summary_prompt ''This is test content.'' ''test query''
          (if False then ''brief and concise (100-150 words)''
           else ''comprehensive (300-500 words)'')) (world ?n) = (Text ''Short.'', 0)"
    by (simp add: mock_env_def)
  have b: "generate_content ?e (model_name ?self)
       (create_comprehensive_prompt (combine_content 1 [] []) ''test query'') (world ?n) =
       (Text ''Short.'', 0)"
    by (simp add: mock_env_def)
  from summarizer_failures [OF a b] a b show ?thesis by simp
qed

section \<open>Properties of the scraper\<close>

text \<open>What an attempt of \<open>scrape\<close> does, by the outcome of its request.\<close>

lemma scrape_attempt_response:
  assumes "requests_get e \<lparr>req_url = url, req_params = [], req_headers = headers self,
             req_timeout = Some (timeout self)\<rparr> (world n) = (Inr resp, w')"
  shows "scrape_attempt e self url attempt max_retries n =
     (Return
        (if raises_for_status resp then (False, ''HTTP error: '' @ http_error_message e resp)
         else if \<not> contains (lower (case response_headers resp ''Content-Type'' of
                                       None \<Rightarrow> [] | Some v \<Rightarrow> v)) ''text/html''
         then (False, ''Not an HTML page. Content-Type: '' @
                 lower (case response_headers resp ''Content-Type'' of
                          None \<Rightarrow> [] | Some v \<Rightarrow> v))
         else (case extract_main_content e (response_text resp) of
                 Inl exn \<Rightarrow> (False, ''Error: '' @ exn)
               | Inr page_text \<Rightarrow>
                   if length page_text < 100 then (False, ''Content too short or empty.'')
                   else (True, if length page_text > 15000
                               then take 15000 page_text @ ''...'' else page_text))),
      \<lparr>world = w', io_log = io_log n @ [Get \<lparr>req_url = url, req_params = [],
         req_headers = headers self, req_timeout = Some (timeout self)\<rparr>]\<rparr>)"
  using assms
  by (auto simp: scrape_attempt_def do_get_def Let_def split: sum.splits)

lemma scrape_attempt_raised:
  assumes "requests_get e \<lparr>req_url = url, req_params = [], req_headers = headers self,
             req_timeout = Some (timeout self)\<rparr> (world n) = (Inl exn, w')"
  shows "scrape_attempt e self url attempt max_retries n =
     (let n1 = \<lparr>world = w', io_log = io_log n @ [Get \<lparr>req_url = url, req_params = [],
                  req_headers = headers self, req_timeout = Some (timeout self)\<rparr>]\<rparr>
      in case exn of
           Timeout x \<Rightarrow>
             if attempt < max_retries - 1 then (Continue, do_sleep e 1 n1)
             else (Return (False, ''Request timed out.''), n1)
         | TooManyRedirects x \<Rightarrow> (Return (False, ''Too many redirects.''), n1)
         | RequestException x \<Rightarrow> (Return (False, ''Request error: '' @ x), n1)
         | OtherException x \<Rightarrow> (Return (False, ''Error: '' @ x), n1))"
  using assms
  by (auto simp: scrape_attempt_def do_get_def Let_def split: raised.splits)

lemma scrape_attempt_success_length:
  assumes "scrape_attempt e self url attempt max_retries n = (Return (True, t), n')"
  shows "100 \<le> length t \<and> length t \<le> 15003"
proof (cases "requests_get e \<lparr>req_url = url, req_params = [], req_headers = headers self,
             req_timeout = Some (timeout self)\<rparr> (world n)")
  case (Pair out w')
  show ?thesis
  proof (cases out)
    case (Inl exn)
    then show ?thesis
      using assms scrape_attempt_raised [of e url self n exn w' attempt max_retries] Pair
      by (auto simp: Let_def split: raised.splits if_splits)
  next
    case (Inr resp)
    then show ?thesis
      using assms scrape_attempt_response [of e url self n resp w' attempt max_retries] Pair
      by (auto split: sum.splits if_splits)
  qed
qed

lemma scrape_loop_success_length:
  "scrape_loop e self url max_retries attempts n = ((True, t), n') \<Longrightarrow>
     100 \<le> length t \<and> length t \<le> 15003"
proof (induction attempts arbitrary: n)
  case Nil
  then show ?case by simp
next
  case (Cons attempt rest)
  show ?case
  proof (cases "scrape_attempt e self url attempt max_retries n")
    case (Pair fl n1)
    show ?thesis
    proof (cases fl)
      case (Return v)
      then have "scrape_attempt e self url attempt max_retries n = (Return (True, t), n')"
        using Cons.prems Pair by simp
      then show ?thesis by (rule scrape_attempt_success_length)
    next
      case Continue
      then have "scrape_loop e self url max_retries rest n1 = ((True, t), n')"
        using Cons.prems Pair by simp
      then show ?thesis by (rule Cons.IH)
    qed
  qed
qed

text \<open>
  C9. When \<open>scrape\<close> returns success, the text returned has at least 100 and at most
  15003 characters: a text of more than 15000 characters is cut at 15000 and the three
  full stops are added after the cut.
\<close>

theorem scrape_success_length:
  assumes "scrape e self url max_retries n = ((True, t), n')"
  shows "100 \<le> length t \<and> length t \<le> 15003"
proof -
  have "scrape_loop e self url max_retries [0..max_retries - 1] n = ((True, t), n')"
    using assms by (auto simp: scrape_def split: if_splits)
  then show ?thesis by (rule scrape_loop_success_length)
qed


lemma re_sub_run_none:
  "\<forall>c \<in> set s. \<not> P c \<Longrightarrow> re_sub_run P k repl s = s"
  by (induction s) auto

lemma dropWhile_not_hd:
  "xs \<noteq> [] \<Longrightarrow> \<not> P (hd xs) \<Longrightarrow> dropWhile P xs = xs"
  by (cases xs) auto

lemma strip_none:
  assumes "s \<noteq> []" "\<not> isspace (hd s)" "\<not> isspace (last s)"
  shows "strip s = s"
proof -
  have a: "dropWhile isspace s = s"
    using assms(1,2) by (rule dropWhile_not_hd)
  have "dropWhile isspace (rev s) = rev s"
    using assms(1,3) by (intro dropWhile_not_hd) (simp_all add: hd_rev)
  then show ?thesis by (simp add: strip_def a)
qed


lemma extract_main_content_replicate:
  assumes "0 < k" "\<not> isspace c" "c \<noteq> CHR 0x0A" "c \<noteq> CHR ''.''" "soup_get_text e = Inr"
  shows "extract_main_content e (replicate k c) = Inr (replicate k c)"
proof -
  have "strip (replicate k c) = replicate k c"
    using assms(1,2) by (intro strip_none) simp_all
  then show ?thesis
    using assms by (simp add: extract_main_content_def re_sub_run_none Let_def)
qed

lemma valid_example: "is_valid_url (mock_env registered js gen) ''https://example.com''"
  by (simp add: is_valid_url_def mock_env_def)

lemma no_skip_example: "\<not> should_skip_url ''https://example.com''"
  by (simp add: should_skip_url_def skip_extensions_def endswith_def lower_def lower_char_def)

lemma html_example:
  "contains (lower (case response_headers (mock_response status ''text/html'' body) ''Content-Type''
                    of None \<Rightarrow> [] | Some v \<Rightarrow> v)) ''text/html''"
  by (simp add: mock_response_def lower_def lower_char_def)

lemma range_2: "[0..(1::int)] = [0, 1]"
  by (simp add: upto.simps)


lemma scrape_example_long:
  "scrape (mock_env (\<lambda>k. Inr (mock_response 200 ''text/html'' (replicate 15001 (CHR ''x''))))
             (\<lambda>resp. Inr None) NoText)
     (WebScraper 5) ''https://example.com'' 2 \<lparr>world = 0, io_log = []\<rparr> =
   ((True, replicate 15000 (CHR ''x'') @ ''...''),
    \<lparr>world = 1,
     io_log = [Get \<lparr>req_url = ''https://example.com'', req_params = [],
                    req_headers = headers (WebScraper 5), req_timeout = Some 5\<rparr>]\<rparr>)"
proof -
  let ?body = "replicate 15001 (CHR ''x'')"
  let ?resp = "mock_response 200 ''text/html'' ?body"
  let ?e = "mock_env (\<lambda>k. Inr ?resp) (\<lambda>resp. Inr None) NoText"
  let ?n = "\<lparr>world = 0, io_log = []\<rparr> :: nat net"
  have get: "requests_get ?e \<lparr>req_url = ''https://example.com'', req_params = [],
               req_headers = headers (WebScraper 5), req_timeout = Some (timeout (WebScraper 5))\<rparr>
               (world ?n) = (Inr ?resp, 1)"
    by (simp add: mock_env_def)
  have ext: "extract_main_content ?e (response_text ?resp) = Inr ?body"
    using extract_main_content_replicate [of 15001 "CHR ''x''" ?e]
    by (simp add: mock_response_def mock_env_def isspace_def)
  have ok: "\<not> raises_for_status ?resp"
    by (simp add: raises_for_status_def mock_response_def)
  have att: "scrape_attempt ?e (WebScraper 5) ''https://example.com'' 0 2 ?n =
     (Return (True, replicate 15000 (CHR ''x'') @ ''...''),
      \<lparr>world = 1,
       io_log = [Get \<lparr>req_url = ''https://example.com'', req_params = [],
                      req_headers = headers (WebScraper 5),
                      req_timeout = Some (timeout (WebScraper 5))\<rparr>]\<rparr>)"
    using html_example [of 200 ?body]
    by (simp add: scrape_attempt_response [OF get] ok ext)
  have "scrape ?e (WebScraper 5) ''https://example.com'' 2 ?n =
     ((True, replicate 15000 (CHR ''x'') @ ''...''),
      \<lparr>world = 1,
       io_log = [Get \<lparr>req_url = ''https://example.com'', req_params = [],
                      req_headers = headers (WebScraper 5),
                      req_timeout = Some (timeout (WebScraper 5))\<rparr>]\<rparr>)"
    by (simp add: scrape_def valid_example no_skip_example range_2 att)
  then show ?thesis by (simp add: WebScraper_def)
qed

theorem scrape_success_length_witness:
  "scrape (mock_env (\<lambda>k. Inr (mock_response 200 ''text/html'' (replicate 15001 (CHR ''x''))))
             (\<lambda>resp. Inr None) NoText)
     (WebScraper 5) ''https://example.com'' 2 \<lparr>world = 0, io_log = []\<rparr> =
   ((True, replicate 15000 (CHR ''x'') @ ''...''),
    \<lparr>world = 1,
     io_log = [Get \<lparr>req_url = ''https://example.com'', req_params = [],
                    req_headers = headers (WebScraper 5), req_timeout = Some 5\<rparr>]\<rparr>)
   \<and> length (replicate 15000 (CHR ''x'') @ ''...'') = 15003
   \<and> 100 \<le> length (replicate 15000 (CHR ''x'') @ ''...'')"
  using scrape_success_length [OF scrape_example_long] scrape_example_long
  by simp

lemma scrape_loop_return:
  "scrape_attempt e self url attempt max_retries n = (Return v, n') \<Longrightarrow>
     scrape_loop e self url max_retries (attempt # rest) n = (v, n')"
  by simp

lemma scrape_first_attempt:
  assumes "is_valid_url e url" "\<not> should_skip_url url" "0 < max_retries"
  shows "scrape e self url max_retries n =
     scrape_loop e self url max_retries (0 # [1..max_retries - 1]) n"
proof -
  have "[0..max_retries - 1] = 0 # [1..max_retries - 1]"
    using assms(3) by (simp add: upto_rec1)
  then show ?thesis using assms(1,2) by (simp add: scrape_def)
qed

text \<open>
  C6. An attempt of \<open>scrape\<close> whose request is answered by a response that does not
  raise for its status, has an HTML content type and is parsed to the cleaned text
  \<open>c\<close>, with \<open>n\<close> the state before the request. If \<open>c\<close> has fewer than 100 characters
  (none included), the loop returns at this attempt the failure
  \<open>Content too short or empty.\<close>; if \<open>c\<close> has more than 15000 characters, it returns
  success with the first 15000 characters of \<open>c\<close> followed by three full stops;
  otherwise it returns success with \<open>c\<close>. No further request is made. The same holds
  for \<open>scrape\<close> itself when this is its first attempt, on a valid URL that is not
  skipped.
\<close>

theorem scrape_content_length:
  assumes "requests_get e \<lparr>req_url = url, req_params = [], req_headers = headers self,
             req_timeout = Some (timeout self)\<rparr> (world n) = (Inr resp, w')"
    and "\<not> raises_for_status resp"
    and "contains (lower (case response_headers resp ''Content-Type'' of
                           None \<Rightarrow> [] | Some v \<Rightarrow> v)) ''text/html''"
    and "extract_main_content e (response_text resp) = Inr c"
    and "n1 = \<lparr>world = w', io_log = io_log n @ [Get \<lparr>req_url = url, req_params = [],
                 req_headers = headers self, req_timeout = Some (timeout self)\<rparr>]\<rparr>"
    and "answer = (if length c < 100 then (False, ''Content too short or empty.'')
                   else if length c > 15000 then (True, take 15000 c @ ''...'')
                   else (True, c))"
  shows "scrape_loop e self url max_retries (attempt # rest) n = (answer, n1)
       \<and> (is_valid_url e url \<and> \<not> should_skip_url url \<and> 0 < max_retries \<longrightarrow>
            scrape e self url max_retries n = (answer, n1))"
proof -
  have att: "scrape_attempt e self url k max_retries n = (Return answer, n1)" for k
    using assms(2-6) by (simp add: scrape_attempt_response [OF assms(1)])
  have "scrape_loop e self url max_retries (k # ks) n = (answer, n1)" for k ks
    using att by (rule scrape_loop_return)
  then show ?thesis by (simp add: scrape_first_attempt del: scrape_loop.simps)
qed


theorem scrape_content_length_witness:
  "requests_get
       (mock_env (\<lambda>k. Inr (mock_response 200 ''text/html'' (replicate 50 (CHR ''x''))))
          (\<lambda>resp. Inr None) NoText)
       \<lparr>req_url = ''https://example.com'', req_params = [],
        req_headers = headers (WebScraper 5), req_timeout = Some (timeout (WebScraper 5))\<rparr>
       (world \<lparr>world = 0, io_log = []\<rparr>) =
     (Inr (mock_response 200 ''text/html'' (replicate 50 (CHR ''x''))), 1)
   \<and> \<not> raises_for_status (mock_response 200 ''text/html'' (replicate 50 (CHR ''x'')))
   \<and> contains (lower (case response_headers
                            (mock_response 200 ''text/html'' (replicate 50 (CHR ''x'')))
                            ''Content-Type'' of None \<Rightarrow> [] | Some v \<Rightarrow> v)) ''text/html''
   \<and> extract_main_content
       (mock_env (\<lambda>k. Inr (mock_response 200 ''text/html'' (replicate 50 (CHR ''x''))))
          (\<lambda>resp. Inr None) NoText)
       (response_text (mock_response 200 ''text/html'' (replicate 50 (CHR ''x'')))) =
     Inr (replicate 50 (CHR ''x''))
   \<and> scrape
       (mock_env (\<lambda>k. Inr (mock_response 200 ''text/html'' (replicate 50 (CHR ''x''))))
          (\<lambda>resp. Inr None) NoText)
       (WebScraper 5) ''https://example.com'' 2 \<lparr>world = 0, io_log = []\<rparr> =
     ((False, ''Content too short or empty.''),
      \<lparr>world = 1,
       io_log = [Get \<lparr>req_url = ''https://example.com'', req_params = [],
                      req_headers = headers (WebScraper 5),
                      req_timeout = Some (timeout (WebScraper 5))\<rparr>]\<rparr>)"
proof -
  let ?body = "replicate 50 (CHR ''x'')"
  let ?resp = "mock_response 200 ''text/html'' ?body"
  let ?e = "mock_env (\<lambda>k. Inr ?resp) (\<lambda>resp. Inr None) NoText"
  let ?n = "\<lparr>world = 0, io_log = []\<rparr> :: nat net"
  let ?req = "\<lparr>req_url = ''https://example.com'', req_params = [],
               req_headers = headers (WebScraper 5),
               req_timeout = Some (timeout (WebScraper 5))\<rparr>"
  have get: "requests_get ?e ?req (world ?n) = (Inr ?resp, 1)"
    by (simp add: mock_env_def)
  have ok: "\<not> raises_for_status ?resp"
    by (simp add: raises_for_status_def mock_response_def)
  have html: "contains (lower (case response_headers ?resp ''Content-Type'' of
                                 None \<Rightarrow> [] | Some v \<Rightarrow> v)) ''text/html''"
    by (rule html_example)
  have ext: "extract_main_content ?e (response_text ?resp) = Inr ?body"
    using extract_main_content_replicate [of 50 "CHR ''x''" ?e]
    by (simp add: mock_response_def mock_env_def isspace_def)
  have n1: "\<lparr>world = 1, io_log = [Get ?req]\<rparr> =
            \<lparr>world = 1, io_log = io_log ?n @ [Get ?req]\<rparr>"
    by simp
  have ans: "(False, ''Content too short or empty.'') =
       (if length ?body < 100 then (False, ''Content too short or empty.'')
        else if length ?body > 15000 then (True, take 15000 ?body @ ''...'')
        else (True, ?body))"
    by simp
  from scrape_content_length [OF get ok html ext n1 ans, of 2 0 "[1]"]
    get ok html ext valid_example [of "\<lambda>k. Inr ?resp" "\<lambda>resp. Inr None" NoText]
    no_skip_example
  show ?thesis by simp
qed

lemma scrape_attempt_one_get:
  "length (filter (\<lambda>ev. \<exists>q. ev = Get q) (io_log (snd (scrape_attempt e self url attempt max_retries n)))) =
     Suc (length (filter (\<lambda>ev. \<exists>q. ev = Get q) (io_log n)))"
proof (cases "requests_get e \<lparr>req_url = url, req_params = [], req_headers = headers self,
             req_timeout = Some (timeout self)\<rparr> (world n)")
  case (Pair out w')
  show ?thesis
  proof (cases out)
    case (Inl exn)
    then show ?thesis
      using scrape_attempt_raised [of e url self n exn w' attempt max_retries] Pair
      by (cases exn) (auto simp: Let_def do_sleep_def)
  next
    case (Inr resp)
    then show ?thesis
      using scrape_attempt_response [of e url self n resp w' attempt max_retries] Pair
      by simp
  qed
qed

lemma scrape_loop_gets:
  "length (filter (\<lambda>ev. \<exists>q. ev = Get q) (io_log (snd (scrape_loop e self url max_retries attempts n)))) \<le>
     length (filter (\<lambda>ev. \<exists>q. ev = Get q) (io_log n)) + length attempts"
proof (induction attempts arbitrary: n)
  case Nil
  then show ?case by simp
next
  case (Cons attempt rest)
  obtain fl n1 where a: "scrape_attempt e self url attempt max_retries n = (fl, n1)"
    by (metis surj_pair)
  have one: "length (filter (\<lambda>ev. \<exists>q. ev = Get q) (io_log n1)) =
             Suc (length (filter (\<lambda>ev. \<exists>q. ev = Get q) (io_log n)))"
    using scrape_attempt_one_get [of e self url attempt max_retries n] a by simp
  show ?case
  proof (cases fl)
    case (Return v)
    then show ?thesis using a one by simp
  next
    case Continue
    then show ?thesis using a one Cons.IH [of n1] by simp
  qed
qed

lemma scrape_gets:
  "length (filter (\<lambda>ev. \<exists>q. ev = Get q) (io_log (snd (scrape e self url max_retries n)))) \<le>
     length (filter (\<lambda>ev. \<exists>q. ev = Get q) (io_log n)) + nat max_retries"
proof -
  have "length [0..max_retries - 1] = nat max_retries" by simp
  then show ?thesis
    using scrape_loop_gets [of e self url max_retries "[0..max_retries - 1]" n]
    by (simp add: scrape_def)
qed


text \<open>
  C7, as stated, fails: a status that is not 2xx need not end in a failure. A response
  with the status 300, an HTML content type and 100 characters of text is returned by
  \<open>scrape\<close> with success, since \<open>raise_for_status\<close> raises for 4xx and 5xx only.
\<close>

theorem scrape_status_300_counterexample:
  "status_code (mock_response 300 ''text/html'' (replicate 100 (CHR ''x''))) = 300
   \<and> fst (scrape
       (mock_env (in_order [Inr (mock_response 300 ''text/html'' (replicate 100 (CHR ''x'')))])
          (json_body None) NoText)
       (WebScraper 5) ''https://example.com'' 2 \<lparr>world = 0, io_log = []\<rparr>) =
     (True, replicate 100 (CHR ''x''))"
proof -
  let ?body = "replicate 100 (CHR ''x'')"
  let ?resp = "mock_response 300 ''text/html'' ?body"
  let ?e = "mock_env (in_order [Inr ?resp]) (json_body None) NoText"
  let ?n = "\<lparr>world = 0, io_log = []\<rparr> :: nat net"
  have get: "requests_get ?e \<lparr>req_url = ''https://example.com'', req_params = [],
               req_headers = headers (WebScraper 5), req_timeout = Some (timeout (WebScraper 5))\<rparr>
               (world ?n) = (Inr ?resp, 1)"
    by (simp add: mock_env_def in_order_def)
  have ext: "extract_main_content ?e (response_text ?resp) = Inr ?body"
    using extract_main_content_replicate [of 100 "CHR ''x''" ?e]
    by (simp add: mock_response_def mock_env_def isspace_def)
  have ok: "\<not> raises_for_status ?resp"
    by (simp add: raises_for_status_def mock_response_def)
  have att: "fst (scrape_attempt ?e (WebScraper 5) ''https://example.com'' 0 2 ?n) =
               Return (True, ?body)"
    using html_example [of 300 ?body]
    by (simp add: scrape_attempt_response [OF get] ok ext)
  have "fst (scrape ?e (WebScraper 5) ''https://example.com'' 2 ?n) = (True, ?body)"
    using att
    by (auto simp: scrape_def valid_example no_skip_example range_2 split: prod.splits)
  then show ?thesis by (simp add: mock_response_def)
qed


text \<open>
  C7, amended. An attempt of \<open>scrape\<close> with the outcome \<open>out\<close> of its request, \<open>n\<close>
  the state before the request and \<open>n1\<close> the state after it. The loop goes on to the
  next attempt exactly when the request timed out and the attempt is not the last one,
  and it sleeps one second first. A time-out at the last attempt, a status from 400 to
  599, a content type that is not HTML and too many redirects each make the loop
  return a failure at this attempt, with no further request. In all, \<open>scrape\<close> makes at
  most \<open>max_retries\<close> requests.
\<close>

theorem scrape_retry_only_on_timeout:
  assumes "requests_get e \<lparr>req_url = url, req_params = [], req_headers = headers self,
             req_timeout = Some (timeout self)\<rparr> (world n) = (out, w')"
    and "n1 = \<lparr>world = w', io_log = io_log n @ [Get \<lparr>req_url = url, req_params = [],
                 req_headers = headers self, req_timeout = Some (timeout self)\<rparr>]\<rparr>"
  shows "(fst (scrape_attempt e self url attempt max_retries n) = Continue \<longleftrightarrow>
            (\<exists>x. out = Inl (Timeout x)) \<and> attempt < max_retries - 1)
       \<and> ((\<exists>x. out = Inl (Timeout x)) \<and> attempt < max_retries - 1 \<longrightarrow>
            scrape_loop e self url max_retries (attempt # rest) n =
              scrape_loop e self url max_retries rest
                \<lparr>world = time_sleep e 1 w', io_log = io_log n1 @ [Sleep 1]\<rparr>)
       \<and> ((\<exists>x. out = Inl (Timeout x)) \<and> \<not> attempt < max_retries - 1 \<longrightarrow>
            scrape_loop e self url max_retries (attempt # rest) n =
              ((False, ''Request timed out.''), n1))
       \<and> (\<forall>resp. out = Inr resp \<and> 400 \<le> status_code resp \<and> status_code resp < 600 \<longrightarrow>
            scrape_loop e self url max_retries (attempt # rest) n =
              ((False, ''HTTP error: '' @ http_error_message e resp), n1))
       \<and> (\<forall>resp. out = Inr resp \<and> \<not> (400 \<le> status_code resp \<and> status_code resp < 600)
              \<and> \<not> contains (lower (case response_headers resp ''Content-Type'' of
                                      None \<Rightarrow> [] | Some v \<Rightarrow> v)) ''text/html'' \<longrightarrow>
            scrape_loop e self url max_retries (attempt # rest) n =
              ((False, ''Not an HTML page. Content-Type: '' @
                  lower (case response_headers resp ''Content-Type'' of
                           None \<Rightarrow> [] | Some v \<Rightarrow> v)), n1))
       \<and> (\<forall>x. out = Inl (TooManyRedirects x) \<longrightarrow>
            scrape_loop e self url max_retries (attempt # rest) n =
              ((False, ''Too many redirects.''), n1))
       \<and> length (filter (\<lambda>ev. \<exists>q. ev = Get q)
             (io_log (snd (scrape e self url max_retries n)))) \<le>
           length (filter (\<lambda>ev. \<exists>q. ev = Get q) (io_log n)) + nat max_retries"
proof (cases out)
  case (Inl exn)
  show ?thesis
    using scrape_attempt_raised [of e url self n exn w' attempt max_retries] assms Inl
      scrape_gets [of e self url max_retries n]
    by (cases exn) (simp_all add: Let_def do_sleep_def)
next
  case (Inr resp)
  have att: "scrape_attempt e self url attempt max_retries n =
     (Return
        (if raises_for_status resp then (False, ''HTTP error: '' @ http_error_message e resp)
         else if \<not> contains (lower (case response_headers resp ''Content-Type'' of
                                       None \<Rightarrow> [] | Some v \<Rightarrow> v)) ''text/html''
         then (False, ''Not an HTML page. Content-Type: '' @
                 lower (case response_headers resp ''Content-Type'' of
                          None \<Rightarrow> [] | Some v \<Rightarrow> v))
         else (case extract_main_content e (response_text resp) of
                 Inl exn \<Rightarrow> (False, ''Error: '' @ exn)
               | Inr page_text \<Rightarrow>
                   if length page_text < 100 then (False, ''Content too short or empty.'')
                   else (True, if length page_text > 15000
                               then take 15000 page_text @ ''...'' else page_text))), n1)"
    using scrape_attempt_response [of e url self n resp w' attempt max_retries] assms Inr
    by simp
  show ?thesis
    using Inr att scrape_gets [of e self url max_retries n]
    by (simp add: raises_for_status_def)
qed


theorem scrape_retry_only_on_timeout_witness:
  "requests_get
       (mock_env (in_order [Inl (Timeout ''timed out'')]) (json_body None) NoText)
       \<lparr>req_url = ''https://example.com/timeout'', req_params = [],
        req_headers = headers (WebScraper 5), req_timeout = Some (timeout (WebScraper 5))\<rparr>
       (world \<lparr>world = 0, io_log = []\<rparr>) = (Inl (Timeout ''timed out''), 1)
   \<and> fst (scrape_attempt
       (mock_env (in_order [Inl (Timeout ''timed out'')]) (json_body None) NoText)
       (WebScraper 5) ''https://example.com/timeout'' 0 2 \<lparr>world = 0, io_log = []\<rparr>) =
     Continue
   \<and> scrape
       (mock_env (in_order [Inl (Timeout ''timed out'')]) (json_body None) NoText)
       (WebScraper 5) ''https://example.com/timeout'' 2 \<lparr>world = 0, io_log = []\<rparr> =
     ((False, ''Request timed out.''),
      \<lparr>world = 2,
       io_log =
         [Get \<lparr>req_url = ''https://example.com/timeout'', req_params = [],
                req_headers = headers (WebScraper 5),
                req_timeout = Some (timeout (WebScraper 5))\<rparr>,
          Sleep 1,
          Get \<lparr>req_url = ''https://example.com/timeout'', req_params = [],
                req_headers = headers (WebScraper 5),
                req_timeout = Some (timeout (WebScraper 5))\<rparr>]\<rparr>)"
proof -
  let ?e = "mock_env (in_order [Inl (Timeout ''timed out'')]) (json_body None) NoText"
  let ?self = "WebScraper 5"
  let ?url = "''https://example.com/timeout''"
  let ?req = "\<lparr>req_url = ?url, req_params = [], req_headers = headers ?self,
               req_timeout = Some (timeout ?self)\<rparr>"
  let ?n = "\<lparr>world = 0, io_log = []\<rparr> :: nat net"
  let ?n1 = "\<lparr>world = 1, io_log = io_log ?n @ [Get ?req]\<rparr> :: nat net"
  let ?n2 = "\<lparr>world = time_sleep ?e 1 1, io_log = io_log ?n1 @ [Sleep 1]\<rparr> :: nat net"
  let ?n3 = "\<lparr>world = 2, io_log = io_log ?n2 @ [Get ?req]\<rparr> :: nat net"
  have get0: "requests_get ?e ?req (world ?n) = (Inl (Timeout ''timed out''), 1)"
    by (simp add: mock_env_def in_order_def)
  have get1: "requests_get ?e ?req (world ?n2) = (Inl (Timeout ''timed out''), 2)"
    by (simp add: mock_env_def in_order_def)
  have valid: "is_valid_url ?e ?url"
    by (simp add: is_valid_url_def mock_env_def)
  have no_skip: "\<not> should_skip_url ?url"
    by (simp add: should_skip_url_def skip_extensions_def endswith_def lower_def lower_char_def)
  note first = scrape_retry_only_on_timeout [OF get0 refl, of 0 2 "[1]"]
  note second = scrape_retry_only_on_timeout [OF get1 refl, of 1 2 "[]"]
  have cont: "fst (scrape_attempt ?e ?self ?url 0 2 ?n) = Continue"
    using first by simp
  have "scrape_loop ?e ?self ?url 2 [0, 1] ?n = ((False, ''Request timed out.''), ?n3)"
    using first second by simp
  then have "scrape ?e ?self ?url 2 ?n = ((False, ''Request timed out.''), ?n3)"
    using valid no_skip by (simp add: scrape_def range_2)
  then show ?thesis using get0 cont by simp
qed

section \<open>Properties of the search tool\<close>

text \<open>What an attempt of \<open>search\<close> does, by the outcome of its request.\<close>

lemma search_attempt_raised:
  assumes "requests_get e \<lparr>req_url = base_url self, req_params = params, req_headers = [],
             req_timeout = None\<rparr> (world n) = (Inl exn, w')"
    and "n1 = \<lparr>world = w', io_log = io_log n @ [Get \<lparr>req_url = base_url self,
                 req_params = params, req_headers = [], req_timeout = None\<rparr>]\<rparr>"
  shows "search_attempt e self params attempt max_retries n =
     (if attempt < max_retries - 1
      then (Continue, \<lparr>world = time_sleep e (2 ^ nat attempt) w',
                        io_log = io_log n1 @ [Sleep (2 ^ nat attempt)]\<rparr>)
      else (Return [], n1))"
  using assms
  by (simp add: search_attempt_def do_get_def search_other_exception_def do_sleep_def)

lemma search_attempt_http_error:
  assumes "requests_get e \<lparr>req_url = base_url self, req_params = params, req_headers = [],
             req_timeout = None\<rparr> (world n) = (Inr resp, w')"
    and "n1 = \<lparr>world = w', io_log = io_log n @ [Get \<lparr>req_url = base_url self,
                 req_params = params, req_headers = [], req_timeout = None\<rparr>]\<rparr>"
    and "400 \<le> status_code resp" "status_code resp < 600"
  shows "search_attempt e self params attempt max_retries n =
     (if status_code resp = 429 \<and> attempt < max_retries - 1
      then (Continue, \<lparr>world = time_sleep e (2 ^ nat attempt) w',
                        io_log = io_log n1 @ [Sleep (2 ^ nat attempt)]\<rparr>)
      else (Return [], n1))"
  using assms
  by (simp add: search_attempt_def do_get_def raises_for_status_def do_sleep_def)

lemma search_attempt_parsed:
  assumes "requests_get e \<lparr>req_url = base_url self, req_params = params, req_headers = [],
             req_timeout = None\<rparr> (world n) = (Inr resp, w')"
    and "n1 = \<lparr>world = w', io_log = io_log n @ [Get \<lparr>req_url = base_url self,
                 req_params = params, req_headers = [], req_timeout = None\<rparr>]\<rparr>"
    and "\<not> (400 \<le> status_code resp \<and> status_code resp < 600)"
  shows "search_attempt e self params attempt max_retries n =
     (case response_json e resp of
        Inl exn \<Rightarrow>
          if attempt < max_retries - 1
          then (Continue, \<lparr>world = time_sleep e (2 ^ nat attempt) w',
                            io_log = io_log n1 @ [Sleep (2 ^ nat attempt)]\<rparr>)
          else (Return [], n1)
      | Inr (Some organic_results) \<Rightarrow> (Return organic_results, n1)
      | Inr None \<Rightarrow> (Return [], n1))"
  using assms
  by (auto simp: search_attempt_def do_get_def raises_for_status_def do_sleep_def
      search_other_exception_def split: sum.splits option.splits)


lemma search_first_attempt:
  assumes "0 < max_retries"
  shows "search e self query num_results max_retries n =
     search_loop e self
       [(''q'', PStr query), (''api_key'', PStr (serp_api_key self)),
        (''engine'', PStr ''google''), (''num'', PInt (min num_results 10))]
       max_retries (0 # [1..max_retries - 1]) n"
proof -
  have "[0..max_retries - 1] = 0 # [1..max_retries - 1]"
    using assms by (simp add: upto_rec1)
  then show ?thesis by (simp add: search_def Let_def)
qed

text \<open>
  C5, as stated, fails: a transport error that is no HTTP status is retried. The first
  request fails to connect, the second is answered with results; \<open>search\<close> sleeps one
  second after the failure, makes the second request and returns its results.
\<close>

theorem search_connection_error_counterexample:
  "fst (requests_get
       (mock_env
          (in_order [Inl (RequestException ''Connection aborted''),
                     Inr (mock_response 200 ''application/json'' [])])
          (json_body (Some [mock_result_1])) NoText)
       \<lparr>req_url = ''https://serpapi.com/search'',
        req_params = [(''q'', PStr ''test query''), (''api_key'', PStr ''mock_api_key''),
                      (''engine'', PStr ''google''), (''num'', PInt 5)],
        req_headers = [], req_timeout = None\<rparr> 0) =
     Inl (RequestException ''Connection aborted'')
   \<and> search
       (mock_env
          (in_order [Inl (RequestException ''Connection aborted''),
                     Inr (mock_response 200 ''application/json'' [])])
          (json_body (Some [mock_result_1])) NoText)
       mock_search_tool ''test query'' 5 3 \<lparr>world = 0, io_log = []\<rparr> =
     ([mock_result_1],
      \<lparr>world = 2,
       io_log =
         [Get \<lparr>req_url = ''https://serpapi.com/search'',
                req_params = [(''q'', PStr ''test query''), (''api_key'', PStr ''mock_api_key''),
                              (''engine'', PStr ''google''), (''num'', PInt 5)],
                req_headers = [], req_timeout = None\<rparr>,
          Sleep 1,
          Get \<lparr>req_url = ''https://serpapi.com/search'',
                req_params = [(''q'', PStr ''test query''), (''api_key'', PStr ''mock_api_key''),
                              (''engine'', PStr ''google''), (''num'', PInt 5)],
                req_headers = [], req_timeout = None\<rparr>]\<rparr>)
   \<and> [mock_result_1] \<noteq> []"
  by (simp add: search_def Let_def upto.simps search_attempt_def do_get_def do_sleep_def
      search_other_exception_def mock_env_def in_order_def json_body_def mock_response_def
      mock_search_tool_def raises_for_status_def)


text \<open>
  C5, amended. An attempt of \<open>search\<close> with the outcome \<open>out\<close> of its request, \<open>n\<close>
  the state before the request and \<open>n1\<close> the state after it. A response with a status
  from 400 to 599 other than 429 (401 is one of them) makes the loop return the empty
  list at this attempt, with no sleep and no further request; \<open>search\<close> itself returns
  the empty list after one request when this is its first attempt. A request that
  raises an exception instead (no connection, a time-out) is retried like a 429: when the
  attempt is not the last one the loop sleeps \<open>2 ^ attempt\<close> seconds and goes on with
  the next attempt, and at the last attempt it returns the empty list.
\<close>

theorem search_http_error_not_retried:
  assumes "requests_get e \<lparr>req_url = base_url self, req_params = params, req_headers = [],
             req_timeout = None\<rparr> (world n) = (out, w')"
    and "n1 = \<lparr>world = w', io_log = io_log n @ [Get \<lparr>req_url = base_url self,
                 req_params = params, req_headers = [], req_timeout = None\<rparr>]\<rparr>"
    and "params = [(''q'', PStr query), (''api_key'', PStr (serp_api_key self)),
                   (''engine'', PStr ''google''), (''num'', PInt (min num_results 10))]"
  shows "(\<forall>resp. out = Inr resp \<and> 400 \<le> status_code resp \<and> status_code resp < 600
              \<and> status_code resp \<noteq> 429 \<longrightarrow>
            search_loop e self params max_retries (attempt # rest) n = ([], n1)
            \<and> (0 < max_retries \<longrightarrow> search e self query num_results max_retries n = ([], n1)))
       \<and> (\<forall>exn. out = Inl exn \<and> attempt < max_retries - 1 \<longrightarrow>
            search_loop e self params max_retries (attempt # rest) n =
              search_loop e self params max_retries rest
                \<lparr>world = time_sleep e (2 ^ nat attempt) w',
                 io_log = io_log n1 @ [Sleep (2 ^ nat attempt)]\<rparr>)
       \<and> (\<forall>exn. out = Inl exn \<and> \<not> attempt < max_retries - 1 \<longrightarrow>
            search_loop e self params max_retries (attempt # rest) n = ([], n1))
       \<and> (\<forall>resp. out = Inr resp \<and> status_code resp = 429 \<and> attempt < max_retries - 1 \<longrightarrow>
            search_loop e self params max_retries (attempt # rest) n =
              search_loop e self params max_retries rest
                \<lparr>world = time_sleep e (2 ^ nat attempt) w',
                 io_log = io_log n1 @ [Sleep (2 ^ nat attempt)]\<rparr>)
       \<and> (\<forall>resp. out = Inr resp \<and> status_code resp = 429 \<and> \<not> attempt < max_retries - 1 \<longrightarrow>
            search_loop e self params max_retries (attempt # rest) n = ([], n1))"
proof (cases out)
  case (Inl exn)
  have get: "requests_get e \<lparr>req_url = base_url self, req_params = params, req_headers = [],
             req_timeout = None\<rparr> (world n) = (Inl exn, w')"
    using assms(1) Inl by simp
  show ?thesis
    using Inl by (simp add: search_attempt_raised [OF get assms(2)])
next
  case (Inr resp)
  have get: "requests_get e \<lparr>req_url = base_url self, req_params = params, req_headers = [],
             req_timeout = None\<rparr> (world n) = (Inr resp, w')"
    using assms(1) Inr by simp
  show ?thesis
  proof (cases "400 \<le> status_code resp \<and> status_code resp < 600")
    case True
    then have err: "400 \<le> status_code resp" "status_code resp < 600" by simp_all
    have att: "search_attempt e self params k max_retries n =
       (if status_code resp = 429 \<and> k < max_retries - 1
        then (Continue, \<lparr>world = time_sleep e (2 ^ nat k) w',
                          io_log = io_log n1 @ [Sleep (2 ^ nat k)]\<rparr>)
        else (Return [], n1))" for k
      by (rule search_attempt_http_error [OF get assms(2) err])
    have first: "search e self query num_results max_retries n =
                 search_loop e self params max_retries (0 # [1..max_retries - 1]) n"
      if "0 < max_retries"
      using that assms(3) by (simp add: search_first_attempt)
    show ?thesis
      using Inr att first by simp
  next
    case False
    then show ?thesis using Inr by auto
  qed
qed


theorem search_http_error_not_retried_witness:
  "requests_get
       (mock_env (in_order [Inr (mock_response 500 ''text/html'' []),
                            Inr (mock_response 200 ''application/json'' [])])
          (json_body (Some [mock_result_1])) NoText)
       \<lparr>req_url = base_url mock_search_tool,
        req_params = [(''q'', PStr ''test query''),
                      (''api_key'', PStr (serp_api_key mock_search_tool)),
                      (''engine'', PStr ''google''), (''num'', PInt (min 5 10))],
        req_headers = [], req_timeout = None\<rparr>
       (world \<lparr>world = 0, io_log = []\<rparr>) =
     (Inr (mock_response 500 ''text/html'' []), 1)
   \<and> status_code (mock_response 500 ''text/html'' []) = 500
   \<and> search
       (mock_env (in_order [Inr (mock_response 500 ''text/html'' []),
                            Inr (mock_response 200 ''application/json'' [])])
          (json_body (Some [mock_result_1])) NoText)
       mock_search_tool ''test query'' 5 3 \<lparr>world = 0, io_log = []\<rparr> =
     ([],
      \<lparr>world = 1,
       io_log =
         [Get \<lparr>req_url = base_url mock_search_tool,
                req_params = [(''q'', PStr ''test query''),
                              (''api_key'', PStr (serp_api_key mock_search_tool)),
                              (''engine'', PStr ''google''), (''num'', PInt (min 5 10))],
                req_headers = [], req_timeout = None\<rparr>]\<rparr>)"
proof -
  let ?resp = "mock_response 500 ''text/html'' []"
  let ?e = "mock_env (in_order [Inr ?resp, Inr (mock_response 200 ''application/json'' [])])
              (json_body (Some [mock_result_1])) NoText"
  let ?params = "[(''q'', PStr ''test query''),
                  (''api_key'', PStr (serp_api_key mock_search_tool)),
                  (''engine'', PStr ''google''), (''num'', PInt (min 5 10))]"
  let ?req = "\<lparr>req_url = base_url mock_search_tool, req_params = ?params,
               req_headers = [], req_timeout = None\<rparr>"
  let ?n = "\<lparr>world = 0, io_log = []\<rparr> :: nat net"
  have get: "requests_get ?e ?req (world ?n) = (Inr ?resp, 1)"
    by (simp add: mock_env_def in_order_def)
  have st: "status_code ?resp = 500"
    by (simp add: mock_response_def)
  from search_http_error_not_retried [OF get refl refl, of 3 0 "[1, 2]"] get st
  show ?thesis by simp
qed

end
